theory Spec2Isabelle
  imports Main "HOL-Library.Multiset"
begin

text \<open>
  The registration backend of CIA 2025: an Express application whose routers authenticate
  a bearer token, read and write the tables of teams, members and track records through
  \<^verbatim>\<open>sequelize.query\<close>, and keep uploaded documents in a directory. This theory models
  the middleware \<^verbatim>\<open>authenticateToken\<close>, the routers \<^verbatim>\<open>teams\<close>, \<^verbatim>\<open>cic\<close>, \<^verbatim>\<open>sbc\<close> and
  \<^verbatim>\<open>fcec\<close> (list, create, delete, verify, reject), the login of the \<^verbatim>\<open>users\<close> router
  and the file names of the multer storages, each handler as a function from the request
  and the store to the response and the new store.
\<close>

section \<open>The relational store and the upload directory\<close>

text \<open>
  The routes reach MySQL through \<^verbatim>\<open>sequelize.query\<close> with named parameters, and the
  disk through \<^verbatim>\<open>fs\<close>. A table is the list of its rows in insertion order; a text
  column is \<open>string option\<close>, with \<open>None\<close> for SQL \<^verbatim>\<open>NULL\<close>. The models of
  \<^verbatim>\<open>../models\<close> are not among the sources: the columns are the ones the statements
  of the routes name, a fresh team is neither verified nor rejected, and no constraint
  besides the auto-increment keys is assumed. A path parameter such as \<^verbatim>\<open>:teamId\<close>
  is the number it denotes.
\<close>

record team =
  team_id :: nat
  team_name :: string
  institution_name :: "string option"
  payment_proof :: "string option"
  event_id :: nat
  user_id :: "nat option"
  email :: "string option"
  voucher :: "string option"
  isVerified :: bool
  isRejected :: bool
  rejectMessage :: "string option"

record member =
  member_id :: nat
  m_team_id :: nat
  full_name :: "string option"
  department :: "string option"
  batch :: "string option"
  phone_number :: "string option"
  line_id :: "string option"
  m_email :: "string option"
  ktm :: "string option"
  active_student_letter :: "string option"
  photo :: "string option"
  twibbon_and_poster_link :: "string option"
  is_leader :: nat
  nim :: "string option"

record dosbim_row =
  d_team_id :: nat
  d_full_name :: "string option"
  nip :: "string option"
  d_email :: "string option"
  d_phone_number :: "string option"
  d_photo :: "string option"

record sbc_row =
  s_team_id :: nat
  bridge_name :: "string option"

record fcec_row =
  f_team_id :: nat
  originality_statement :: "string option"
  abstract_title :: "string option"
  abstract_file :: "string option"
  abstract_video_link :: "string option"

record event =
  e_event_id :: nat
  event_name :: string

text \<open>
  A row of the \<^verbatim>\<open>User\<close> model, as far as the login route reads it. \<open>uid\<close> is the
  value of \<^verbatim>\<open>user.id\<close>, \<open>None\<close> when the model has no such attribute.
\<close>

record user =
  uid :: "nat option"
  username :: string
  u_email :: string
  password :: "string option"

text \<open>Every call of \<^verbatim>\<open>sequelize.query\<close> is written to a journal, in the order of the calls.\<close>

datatype table = Teams | Members | Dosbim | Sbc | Fcec | Events

datatype stmt =
    SELECT table
  | SELECT_LAST_INSERT_ID
  | INSERT table
  | UPDATE table nat
  | DELETE table nat

record store =
  teams :: "team list"
  members :: "member list"
  dosbim :: "dosbim_row list"
  sbc :: "sbc_row list"
  fcec :: "fcec_row list"
  events :: "event list"
  auto_increment_teams :: nat
  auto_increment_members :: nat
  last_insert_id :: nat
  disk :: "string set"
  journal :: "stmt list"

definition query :: "stmt \<Rightarrow> store \<Rightarrow> store" where
  "query q s = s\<lparr>journal := journal s @ [q]\<rparr>"


section \<open>HTTP responses\<close>

text \<open>
  Every handler ends a request with \<^verbatim>\<open>res.status(n).json(obj)\<close>. One constructor per
  shape of body the routes send. An exception that reaches a \<^verbatim>\<open>catch\<close> is reported
  by its message; the model keeps the kind of exception instead of the text.
\<close>

datatype exn =
    SyntaxError
  | TypeError
  | NamedParameterError string
  | ENOENT string

text \<open>
  The element of a team list: \<^verbatim>\<open>{ team, leader, members }\<close>, with the rows of the
  track's own tables where the track has some; the CIC list sends three columns of a
  team that has no member row.
\<close>

datatype track_rows =
    NoTrack
  | SbcRows "dosbim_row list" "sbc_row list" string
  | FcecRows "fcec_row list"

datatype team_view =
    TeamOnly string "string option" "string option"
  | TeamView (view_team: team) (view_leader: "member option") (view_members: "member list")
      (view_track: track_rows)

datatype body =
    Message string
  | MessageError string string
  | MessageExn string exn
  | StatusMessage string string
  | TeamList "team_view list"
  | LoggedIn string user string

text \<open>\<open>Hang\<close>: the handler ended with an exception nothing catches, and no response is sent.\<close>

datatype response = Response (status: nat) (body: body) | Hang


section \<open>The credential verifier (middleware/authenticateToken)\<close>

subsection \<open>The \<^verbatim>\<open>jsonwebtoken\<close> package\<close>

text \<open>
  The middleware and the login route call \<^verbatim>\<open>jwt.verify\<close> and \<^verbatim>\<open>jwt.sign\<close> of the
  \<^verbatim>\<open>jsonwebtoken\<close> package, which is not part of the repository. It is modelled
  symbolically, in the style of the protocol proofs of \<^verbatim>\<open>HOL/Auth\<close>: a token is its
  payload together with the key its HS256 signature was computed with, and a signature
  verifies under that key only. The compact serialisation (base64url of header, payload
  and signature, joined by dots) is not spelled out: the parser is a parameter
  \<open>decode\<close> of the verifier and the printer a parameter \<open>encode\<close> of the signer.

  The payload carries the registered claims \<^verbatim>\<open>iat\<close>, \<^verbatim>\<open>nbf\<close> and \<^verbatim>\<open>exp\<close> (seconds since
  the epoch) and the two private claims the repository reads or writes: \<^verbatim>\<open>id\<close> (written
  by the login route) and \<^verbatim>\<open>user_id\<close> (read by the create routes). \<open>None\<close> is a key
  that is absent from the payload.
\<close>

record claims =
  c_id :: "nat option"
  c_user_id :: "nat option"
  c_iat :: "nat option"
  c_nbf :: "nat option"
  c_exp :: "nat option"

datatype jwt = JWT (payload: claims) (mac_key: string)

datatype jwt_error = JsonWebTokenError | NotBeforeError | TokenExpiredError

text \<open>
  \<^verbatim>\<open>jwt.verify(token, secret)\<close> with no options, at wall-clock time \<open>now\<close> (seconds):
  a string that does not parse is \<^verbatim>\<open>JsonWebTokenError\<close> (``jwt malformed''), a signature
  under another key is \<^verbatim>\<open>JsonWebTokenError\<close> (``invalid signature''); only then the
  time claims are compared with the clock, \<^verbatim>\<open>nbf\<close> before \<^verbatim>\<open>exp\<close>.
\<close>

definition jwt_verify ::
  "(string \<Rightarrow> jwt option) \<Rightarrow> nat \<Rightarrow> string \<Rightarrow> string \<Rightarrow> jwt_error + claims" where
  "jwt_verify decode now token secret =
     (case decode token of
        None \<Rightarrow> Inl JsonWebTokenError
      | Some t \<Rightarrow>
          if mac_key t \<noteq> secret then Inl JsonWebTokenError
          else if (case c_nbf (payload t) of None \<Rightarrow> False | Some n \<Rightarrow> now < n)
            then Inl NotBeforeError
          else if (case c_exp (payload t) of None \<Rightarrow> False | Some e \<Rightarrow> e \<le> now)
            then Inl TokenExpiredError
          else Inr (payload t))"

text \<open>
  \<^verbatim>\<open>jwt.sign(payload, secret, { expiresIn: seconds })\<close> at time \<open>now\<close>: the payload
  gets \<^verbatim>\<open>iat = now\<close> and \<^verbatim>\<open>exp = now + seconds\<close> and is signed with \<open>secret\<close>.
\<close>

definition jwt_sign ::
  "(jwt \<Rightarrow> string) \<Rightarrow> nat \<Rightarrow> claims \<Rightarrow> string \<Rightarrow> nat \<Rightarrow> string" where
  "jwt_sign encode now p secret expiresIn =
     encode (JWT (p\<lparr>c_iat := Some now, c_exp := Some (now + expiresIn)\<rparr>) secret)"


subsection \<open>authenticateToken\<close>

text \<open>
  \<^verbatim>\<open>const JWT_SECRET = process.env.JWT_SECRET || 'backendCIA'\<close>: an unset variable and
  the empty string are both falsy.
\<close>

definition JWT_SECRET :: "string option \<Rightarrow> string" where
  "JWT_SECRET env =
     (case env of None \<Rightarrow> ''backendCIA'' | Some v \<Rightarrow> if v = [] then ''backendCIA'' else v)"

text \<open>\<^verbatim>\<open>String.prototype.split(sep)\<close> for a one-character separator.\<close>

fun split :: "char \<Rightarrow> string \<Rightarrow> string list" where
  "split sep [] = [[]]"
| "split sep (c # cs) =
     (if c = sep then [] # split sep cs
      else (case split sep cs of [] \<Rightarrow> [[c]] | w # ws \<Rightarrow> (c # w) # ws))"

text \<open>\<^verbatim>\<open>xs[i]\<close>: \<^verbatim>\<open>undefined\<close> out of range.\<close>

fun item :: "'a list \<Rightarrow> nat \<Rightarrow> 'a option" where
  "item [] i = None"
| "item (x # xs) 0 = Some x"
| "item (x # xs) (Suc i) = item xs i"

text \<open>
  What the process is configured with and what the library and the clock answer:
  the token parser, the environment variable \<^verbatim>\<open>JWT_SECRET\<close> and the time in seconds.
\<close>

record ctx =
  jwt_decode :: "string \<Rightarrow> jwt option"
  env_JWT_SECRET :: "string option"
  clock :: nat

text \<open>
  A middleware either ends the request with a response or calls \<^verbatim>\<open>next()\<close> with the
  decoded payload stored in \<^verbatim>\<open>req.user\<close>.
\<close>

datatype middleware_result = Respond response | Next claims

text \<open>
  \<^verbatim>\<open>const token = authHeader && authHeader.split(' ')[1]\<close>: an absent header gives
  \<^verbatim>\<open>undefined\<close>, the empty header gives itself.
\<close>

definition bearer_token :: "string option \<Rightarrow> string option" where
  "bearer_token authHeader =
     (case authHeader of
        None \<Rightarrow> None
      | Some h \<Rightarrow> if h = [] then Some [] else item (split CHR '' '' h) 1)"

definition authenticateToken :: "ctx \<Rightarrow> string option \<Rightarrow> middleware_result" where
  "authenticateToken cx authHeader =
     (case bearer_token authHeader of
        None \<Rightarrow> Respond (Response 401 (Message ''Authentication token is required''))
      | Some token \<Rightarrow>
          if token = [] then Respond (Response 401 (Message ''Authentication token is required''))
          else
            (case jwt_verify (jwt_decode cx) (clock cx) token (JWT_SECRET (env_JWT_SECRET cx)) of
               Inr decoded \<Rightarrow> Next decoded
             | Inl err \<Rightarrow>
                 if err = TokenExpiredError
                 then Respond (Response 401 (Message ''Token has expired''))
                 else Respond (Response 403 (Message ''Invalid token''))))"

text \<open>
  A route registered as \<^verbatim>\<open>router.verb(path, authenticateToken, handler)\<close>: the handler
  runs on the store only when the middleware calls \<^verbatim>\<open>next()\<close>.
\<close>

definition guarded ::
  "ctx \<Rightarrow> string option \<Rightarrow> (claims \<Rightarrow> 's \<Rightarrow> response \<times> 's) \<Rightarrow> 's \<Rightarrow> response \<times> 's" where
  "guarded cx authHeader handler s =
     (case authenticateToken cx authHeader of
        Respond r \<Rightarrow> (r, s)
      | Next user \<Rightarrow> handler user s)"


section \<open>Statements of the routes\<close>

text \<open>
  \<^verbatim>\<open>array.map(async ...)\<close> under \<^verbatim>\<open>Promise.all\<close>: \<^verbatim>\<open>map\<close> calls the callback on
  the elements in the order of the array, and each call runs until its first \<^verbatim>\<open>await\<close>
  has issued its statement; a callback goes on when the answer to its statement has come.
  The database is taken to answer in the order of the statements.

  The callbacks of the create routes issue one statement each, an \<^verbatim>\<open>INSERT\<close>, or none:
  the statements reach the database in the order of the array, which is what
  \<open>map_store\<close> does.
\<close>

fun map_store :: "('a \<Rightarrow> store \<Rightarrow> 'b \<times> store) \<Rightarrow> 'a list \<Rightarrow> store \<Rightarrow> 'b list \<times> store" where
  "map_store f [] s = ([], s)"
| "map_store f (x # xs) s =
     (case f x s of (y, s1) \<Rightarrow> (case map_store f xs s1 of (ys, s2) \<Rightarrow> (y # ys, s2)))"

text \<open>
  \<^verbatim>\<open>SELECT * FROM members WHERE team_id = :teamId ORDER BY is_leader DESC\<close>: rows of
  equal rank keep the order of the table.
\<close>

definition order_by_is_leader_desc :: "member list \<Rightarrow> member list" where
  "order_by_is_leader_desc ms = rev (sort_key is_leader (rev ms))"

definition select_members :: "nat \<Rightarrow> store \<Rightarrow> member list" where
  "select_members teamId s =
     order_by_is_leader_desc (filter (\<lambda>m. m_team_id m = teamId) (members s))"

text \<open>
  The callbacks of the list routes issue one \<^verbatim>\<open>SELECT\<close> after the other, up to three.
  Each callback has issued its first statement before any of them issues its second:
  the journal gets the first statements of all the callbacks in the order of the array,
  then their second statements, and so on. The statements only read, so every callback
  sees the tables as the handler found them; its value is a function of those tables.
\<close>

definition rounds :: "stmt list \<Rightarrow> 'a list \<Rightarrow> store \<Rightarrow> store" where
  "rounds qs xs s = s\<lparr>journal := journal s @ concat (map (\<lambda>q. map (\<lambda>x. q) xs) qs)\<rparr>"

definition select_teams_by_event :: "nat \<Rightarrow> store \<Rightarrow> team list \<times> store" where
  "select_teams_by_event eventId s =
     (filter (\<lambda>t. event_id t = eventId) (teams s), query (SELECT Teams) s)"

text \<open>\<^verbatim>\<open>SELECT team_id FROM teams WHERE team_name = :team_name AND event_id = :event_id\<close>\<close>

definition select_team_by_name :: "string \<Rightarrow> nat \<Rightarrow> store \<Rightarrow> nat list \<times> store" where
  "select_team_by_name name eventId s =
     (map team_id (filter (\<lambda>t. team_name t = name \<and> event_id t = eventId) (teams s)),
      query (SELECT Teams) s)"

text \<open>
  An \<^verbatim>\<open>INSERT\<close> into a table with an auto-increment key gives the row the next key,
  which is also what \<^verbatim>\<open>LAST_INSERT_ID()\<close> then returns, and returns that key.
\<close>

definition insert_team :: "team \<Rightarrow> store \<Rightarrow> nat \<times> store" where
  "insert_team row s =
     (let i = auto_increment_teams s in
      (i, query (INSERT Teams)
            (s\<lparr>teams := teams s @ [row\<lparr>team_id := i\<rparr>],
               auto_increment_teams := Suc i,
               last_insert_id := i\<rparr>)))"

definition insert_member :: "member \<Rightarrow> store \<Rightarrow> nat \<times> store" where
  "insert_member row s =
     (let i = auto_increment_members s in
      (i, query (INSERT Members)
            (s\<lparr>members := members s @ [row\<lparr>member_id := i\<rparr>],
               auto_increment_members := Suc i,
               last_insert_id := i\<rparr>)))"

definition insert_dosbim :: "dosbim_row \<Rightarrow> store \<Rightarrow> store" where
  "insert_dosbim row s = query (INSERT Dosbim) (s\<lparr>dosbim := dosbim s @ [row]\<rparr>)"

definition insert_sbc :: "sbc_row \<Rightarrow> store \<Rightarrow> store" where
  "insert_sbc row s = query (INSERT Sbc) (s\<lparr>sbc := sbc s @ [row]\<rparr>)"

definition insert_fcec :: "fcec_row \<Rightarrow> store \<Rightarrow> store" where
  "insert_fcec row s = query (INSERT Fcec) (s\<lparr>fcec := fcec s @ [row]\<rparr>)"

text \<open>\<^verbatim>\<open>DELETE FROM <table> WHERE team_id = :team_id\<close>\<close>

definition delete_dosbim :: "nat \<Rightarrow> store \<Rightarrow> store" where
  "delete_dosbim teamId s =
     query (DELETE Dosbim teamId) (s\<lparr>dosbim := filter (\<lambda>r. d_team_id r \<noteq> teamId) (dosbim s)\<rparr>)"

definition delete_sbc :: "nat \<Rightarrow> store \<Rightarrow> store" where
  "delete_sbc teamId s =
     query (DELETE Sbc teamId) (s\<lparr>sbc := filter (\<lambda>r. s_team_id r \<noteq> teamId) (sbc s)\<rparr>)"

definition delete_fcec :: "nat \<Rightarrow> store \<Rightarrow> store" where
  "delete_fcec teamId s =
     query (DELETE Fcec teamId) (s\<lparr>fcec := filter (\<lambda>r. f_team_id r \<noteq> teamId) (fcec s)\<rparr>)"

definition delete_members :: "nat \<Rightarrow> store \<Rightarrow> store" where
  "delete_members teamId s =
     query (DELETE Members teamId)
       (s\<lparr>members := filter (\<lambda>m. m_team_id m \<noteq> teamId) (members s)\<rparr>)"

definition delete_teams :: "nat \<Rightarrow> store \<Rightarrow> store" where
  "delete_teams teamId s =
     query (DELETE Teams teamId) (s\<lparr>teams := filter (\<lambda>t. team_id t \<noteq> teamId) (teams s)\<rparr>)"


section \<open>The file system\<close>

text \<open>
  The disk is the set of paths that exist. \<^verbatim>\<open>fs.unlinkSync\<close> throws \<^verbatim>\<open>ENOENT\<close> on a path
  that does not exist; a loop of such calls stops at the first one that throws, with
  the earlier paths gone.
\<close>

fun unlinkSync_each :: "string list \<Rightarrow> string set \<Rightarrow> exn option \<times> string set" where
  "unlinkSync_each [] d = (None, d)"
| "unlinkSync_each (p # ps) d =
     (if p \<in> d then unlinkSync_each ps (d - {p}) else (Some (ENOENT p), d))"

text \<open>
  The asynchronous \<^verbatim>\<open>fs.unlink(path, callback)\<close>, with a callback that only logs the
  error: each path that exists is removed.
\<close>

definition unlink_each :: "string list \<Rightarrow> string set \<Rightarrow> string set" where
  "unlink_each ps d = d - set ps"

text \<open>
  \<^verbatim>\<open>req.files\<close> after \<^verbatim>\<open>upload.fields([{ name, maxCount: 1 }, ...])\<close>: for each field
  that came with a file, the path the file was stored under.
  \<^verbatim>\<open>Object.values(req.files)\<close> lists them in the order of arrival.
\<close>

type_synonym files = "(string \<times> string) list"

definition file_path :: "files \<Rightarrow> string \<Rightarrow> string option" where
  "file_path fs field = map_of fs field"

definition file_paths :: "files \<Rightarrow> string list" where
  "file_paths fs = map snd fs"


section \<open>Strings\<close>

text \<open>
  A character is a code unit below 256. \<^verbatim>\<open>String.prototype.trim\<close> removes white space
  and line terminators from both ends; below 256 these are the codes 9 to 13, 32 and 160.
\<close>

definition is_white_space :: "char \<Rightarrow> bool" where
  "is_white_space c = (of_char c \<in> {9, 10, 11, 12, 13, 32, 160 :: nat})"

definition trim :: "string \<Rightarrow> string" where
  "trim s = rev (dropWhile is_white_space (rev (dropWhile is_white_space s)))"

text \<open>The decimal numeral of a number, as string concatenation prints it.\<close>

definition digit :: "nat \<Rightarrow> char" where
  "digit d = ''0123456789'' ! d"

function show_nat :: "nat \<Rightarrow> string" where
  "show_nat n = (if n < 10 then [digit n] else show_nat (n div 10) @ [digit (n mod 10)])"
  by pat_completeness auto
termination
  by (relation "measure id") auto

declare show_nat.simps [simp del]


section \<open>routes/teams\<close>

text \<open>
  \<^verbatim>\<open>GET /teams\<close>: every team with its member rows, the leader apart.
  \<^verbatim>\<open>members.find((member) => member.is_leader === 1)\<close> is the first such row, or
  \<^verbatim>\<open>undefined\<close>.
\<close>

definition team_with_members :: "store \<Rightarrow> team \<Rightarrow> team_view" where
  "team_with_members s team =
     (let ms = select_members (team_id team) s in
      TeamView team
        (find (\<lambda>member. is_leader member = 1) ms)
        (filter (\<lambda>member. is_leader member = 0) ms)
        NoTrack)"

definition teams_list :: "store \<Rightarrow> response \<times> store" where
  "teams_list s =
     (let ts = teams s; s1 = query (SELECT Teams) s in
      if ts = [] then (Response 404 (Message ''Tidak ada tim ditemukan''), s1)
      else (Response 200 (TeamList (map (team_with_members s1) ts)),
            rounds [SELECT Members] ts s1))"

text \<open>\<^verbatim>\<open>PUT /teams/:team_id/verify\<close>\<close>

definition teams_verify :: "nat \<Rightarrow> store \<Rightarrow> response \<times> store" where
  "teams_verify teamId s =
     (let team = filter (\<lambda>t. team_id t = teamId) (teams s);
          s1 = query (SELECT Teams) s in
      if team = [] then (Response 404 (StatusMessage ''error'' ''Tim tidak ditemukan''), s1)
      else
        (Response 200 (StatusMessage ''success'' ''Tim Berhasil Diverifikasi''),
         query (UPDATE Teams teamId)
           (s1\<lparr>teams :=
                 map (\<lambda>t. if team_id t = teamId then t\<lparr>isVerified := True\<rparr> else t)
                   (teams s1)\<rparr>)))"

text \<open>
  \<^verbatim>\<open>PUT /teams/:team_id/reject\<close>. The body's \<^verbatim>\<open>rejectMessage\<close> is absent (\<open>None\<close>),
  \<^verbatim>\<open>null\<close> (\<open>Some None\<close>) or a string; \<^verbatim>\<open>sequelize.query\<close> throws on a named
  parameter whose value is \<^verbatim>\<open>undefined\<close>, before anything is sent to the database.
\<close>

definition teams_reject :: "nat \<Rightarrow> string option option \<Rightarrow> store \<Rightarrow> response \<times> store" where
  "teams_reject teamId rejectMessage' s =
     (case rejectMessage' of
        None \<Rightarrow>
          (Response 500 (MessageExn ''An error occurred'' (NamedParameterError '':rejectMessage'')), s)
      | Some message \<Rightarrow>
          (Response 200 (Message ''Team rejection status updated successfully''),
           query (UPDATE Teams teamId)
             (s\<lparr>teams :=
                  map (\<lambda>t. if team_id t = teamId
                            then t\<lparr>isRejected := True, rejectMessage := message\<rparr> else t)
                    (teams s)\<rparr>)))"

text \<open>
  The three routes as the router registers them: the list and the rejection behind
  \<^verbatim>\<open>authenticateToken\<close>, the verification with its handler alone.
\<close>

definition GET_teams :: "ctx \<Rightarrow> string option \<Rightarrow> store \<Rightarrow> response \<times> store" where
  "GET_teams cx authorization s = guarded cx authorization (\<lambda>user. teams_list) s"

definition PUT_teams_verify :: "ctx \<Rightarrow> string option \<Rightarrow> nat \<Rightarrow> store \<Rightarrow> response \<times> store" where
  "PUT_teams_verify cx authorization teamId s = teams_verify teamId s"

definition PUT_teams_reject ::
  "ctx \<Rightarrow> string option \<Rightarrow> nat \<Rightarrow> string option option \<Rightarrow> store \<Rightarrow> response \<times> store" where
  "PUT_teams_reject cx authorization teamId rejectMessage' s =
     guarded cx authorization (\<lambda>user. teams_reject teamId rejectMessage') s"


section \<open>The payload of a create request\<close>

text \<open>
  The create routes read \<^verbatim>\<open>req.body.data\<close>, a JSON text in a multipart field, and
  \<^verbatim>\<open>req.files\<close>. The field is absent or empty, or a text \<^verbatim>\<open>JSON.parse\<close> rejects, or
  the text of an object. Of that object each of \<^verbatim>\<open>team\<close>, \<^verbatim>\<open>leader\<close>, \<^verbatim>\<open>members\<close>,
  \<^verbatim>\<open>dosbim\<close>, \<^verbatim>\<open>sbc\<close> and \<^verbatim>\<open>fcec\<close> may be missing (\<open>None\<close>). An object that is
  there has the keys the documented schemas and the statements name; a text value is a
  string or \<^verbatim>\<open>null\<close> (\<open>None\<close>).

  The object of a leader or a member may have one key more, \<^verbatim>\<open>teamId\<close>, the name of
  the parameter that the \<^verbatim>\<open>INSERT\<close> of CIC and FCEC binds to the column \<^verbatim>\<open>team_id\<close>:
  \<open>in_teamId\<close> is its value, a number, and \<open>None\<close> when the object has no such key.
  The routes spread the object into the replacements of the statement, so the key
  reaches the statement unless a key written after the spread takes its place.

  Between the verifier and the handler of a create route stands multer's
  \<^verbatim>\<open>upload.fields\<close>, which stores the files of the request. The handlers are modelled
  from there on: \<^verbatim>\<open>req.files\<close> names the stored paths and the disk holds them.
\<close>

record team_input =
  in_team_name :: string
  in_institution_name :: "string option"
  in_payment_proof :: "string option"
  in_user_id :: "nat option"
  in_team_email :: "string option"

record member_input =
  in_teamId :: "nat option"
  in_full_name :: "string option"
  in_department :: "string option"
  in_batch :: "string option"
  in_phone_number :: "string option"
  in_line_id :: "string option"
  in_email :: "string option"
  in_twibbon_and_poster_link :: "string option"
  in_nim :: "string option"

record dosbim_input =
  in_d_full_name :: "string option"
  in_nip :: "string option"
  in_d_email :: "string option"
  in_d_phone_number :: "string option"

record sbc_input =
  in_bridge_name :: "string option"

record fcec_input =
  in_abstract_title :: "string option"
  in_abstract_video_link :: "string option"

record payload =
  p_team :: "team_input option"
  p_leader :: "member_input option"
  p_members :: "member_input list option"
  p_dosbim :: "dosbim_input list option"
  p_sbc :: "sbc_input list option"
  p_fcec :: "fcec_input option"

datatype form_data = Absent | Unparsable string | Parsed payload

record create_request =
  data :: form_data
  req_files :: files

text \<open>
  The file fields of the member at \<open>index\<close> are named \<^verbatim>\<open>member\<close>, then \<open>index + 1\<close>,
  then an underscore and the column; the leader's start with \<^verbatim>\<open>leader_\<close>.
\<close>

definition member_field :: "nat \<Rightarrow> string \<Rightarrow> string" where
  "member_field index name = ''member'' @ show_nat (index + 1) @ ''_'' @ name"


text \<open>
  \<^verbatim>\<open>Promise.all\<close> over the results of the callbacks: rejected with the first rejection,
  otherwise fulfilled with all the values.
\<close>

fun promise_all :: "(exn + 'a) list \<Rightarrow> exn + 'a list" where
  "promise_all [] = Inr []"
| "promise_all (Inl e # rs) = Inl e"
| "promise_all (Inr v # rs) = (case promise_all rs of Inl e \<Rightarrow> Inl e | Inr vs \<Rightarrow> Inr (v # vs))"

text \<open>
  The member row the CIC route inserts, from the replacements
  \<^verbatim>\<open>{ teamId: teamResult.team_id, ...member, ...memberFiles, is_leader: 0 }\<close> (for the
  leader \<^verbatim>\<open>...leaderData, ...leaderFiles, is_leader: 1\<close>): the new team's id comes
  before the spread, so a key \<^verbatim>\<open>teamId\<close> of the object takes its place; the three
  stored paths and the leader flag come after it. The key of the row is the one
  \<open>insert_member\<close> assigns.
\<close>

definition member_row ::
  "nat \<Rightarrow> member_input \<Rightarrow> files \<Rightarrow> (string \<Rightarrow> string) \<Rightarrow> nat \<Rightarrow> member" where
  "member_row teamId m fs field flag =
     \<lparr>member_id = 0,
      m_team_id = (case in_teamId m of None \<Rightarrow> teamId | Some teamId' \<Rightarrow> teamId'),
      full_name = in_full_name m, department = in_department m, batch = in_batch m,
      phone_number = in_phone_number m, line_id = in_line_id m, m_email = in_email m,
      ktm = file_path fs (field ''ktm''),
      active_student_letter = file_path fs (field ''active_student_letter''),
      photo = file_path fs (field ''photo''),
      twibbon_and_poster_link = in_twibbon_and_poster_link m,
      is_leader = flag, nim = None\<rparr>"

text \<open>
  The FCEC route writes \<^verbatim>\<open>{ ...member, ...memberFiles, teamId, is_leader: 0 }\<close>: the
  new team's id comes after the spread and stands. The SBC route binds the column to a
  parameter \<^verbatim>\<open>team_id\<close>, written after the spread as well, and names \<^verbatim>\<open>nim\<close> in
  place of \<^verbatim>\<open>department\<close>.
\<close>

definition fcec_member_row ::
  "nat \<Rightarrow> member_input \<Rightarrow> files \<Rightarrow> (string \<Rightarrow> string) \<Rightarrow> nat \<Rightarrow> member" where
  "fcec_member_row teamId m fs field flag =
     (member_row teamId m fs field flag)\<lparr>m_team_id := teamId\<rparr>"

definition sbc_member_row ::
  "nat \<Rightarrow> member_input \<Rightarrow> files \<Rightarrow> (string \<Rightarrow> string) \<Rightarrow> nat \<Rightarrow> member" where
  "sbc_member_row teamId m fs field flag =
     (member_row teamId m fs field flag)
       \<lparr>m_team_id := teamId, department := None, nim := in_nim m\<rparr>"

definition leader_field :: "string \<Rightarrow> string" where
  "leader_field name = ''leader_'' @ name"


section \<open>routes/cic\<close>

text \<open>\<^verbatim>\<open>GET /teams/cic\<close>, with \<^verbatim>\<open>eventId = 4\<close>.\<close>

definition cic_team_view :: "store \<Rightarrow> team \<Rightarrow> team_view" where
  "cic_team_view s team =
     (let ms = select_members (team_id team) s in
      if ms = [] then TeamOnly (team_name team) (institution_name team) (payment_proof team)
      else TeamView team
             (find (\<lambda>member. is_leader member = 1) ms)
             (filter (\<lambda>member. is_leader member = 0) ms)
             NoTrack)"

definition cic_list :: "store \<Rightarrow> response \<times> store" where
  "cic_list s =
     (case select_teams_by_event 4 s of
        (ts, s1) \<Rightarrow>
          if ts = [] then (Response 404 (Message ''No teams found for CIC''), s1)
          else (Response 200 (TeamList (map (cic_team_view s1) ts)),
                rounds [SELECT Members] ts s1))"

text \<open>
  \<^verbatim>\<open>POST /teams/cic/new\<close>. The callback of \<^verbatim>\<open>membersData.map\<close>: the member at index 2
  is left out when its name trims to the empty string (and \<^verbatim>\<open>null.trim()\<close> throws);
  every other member is inserted with \<^verbatim>\<open>is_leader: 0\<close>, under the new team's id or,
  when the object has a key \<^verbatim>\<open>teamId\<close>, under that.
\<close>

definition cic_member :: "nat \<Rightarrow> files \<Rightarrow> nat \<times> member_input \<Rightarrow> store \<Rightarrow> (exn + unit) \<times> store" where
  "cic_member teamId fs im s =
     (case im of
        (index, member) \<Rightarrow>
          if index = 2 \<and> in_full_name member = None then (Inl TypeError, s)
          else if index = 2 \<and> (case in_full_name member of None \<Rightarrow> False | Some n \<Rightarrow> trim n = [])
            then (Inr (), s)
          else (Inr (), snd (insert_member (member_row teamId member fs (member_field index) 0) s)))"

definition cic_create ::
  "claims \<Rightarrow> files \<Rightarrow> team_input \<Rightarrow> member_input \<Rightarrow> member_input list option \<Rightarrow> store
     \<Rightarrow> response \<times> store" where
  "cic_create user fs teamData leaderData membersData s =
     (case select_team_by_name (in_team_name teamData) 4 s of
        (existingTeam, s1) \<Rightarrow>
          if existingTeam \<noteq> [] then
            (case unlinkSync_each (file_paths fs) (disk s1) of
               (None, d) \<Rightarrow>
                 (Response 400 (MessageError ''Team name already exists'' ''TEAM_NAME_EXISTS''),
                  s1\<lparr>disk := d\<rparr>)
             | (Some e, d) \<Rightarrow>
                 (Response 500 (MessageExn ''An error occurred'' e), s1\<lparr>disk := d\<rparr>))
          else
            (case c_user_id user of
               None \<Rightarrow>
                 (Response 500 (MessageExn ''An error occurred'' (NamedParameterError '':user_id'')),
                  s1)
             | Some userId \<Rightarrow>
                 (let s2 = snd (insert_team
                            \<lparr>team_id = 0, team_name = in_team_name teamData,
                             institution_name = in_institution_name teamData,
                             payment_proof = file_path fs ''payment_proof'',
                             event_id = 4, user_id = Some userId,
                             email = in_team_email teamData,
                             voucher = file_path fs ''voucher'',
                             isVerified = False, isRejected = False, rejectMessage = None\<rparr> s1);
                      teamId = last_insert_id s2;
                      s3 = query SELECT_LAST_INSERT_ID s2;
                      s4 = snd (insert_member (member_row teamId leaderData fs leader_field 1) s3)
                  in case membersData of
                       None \<Rightarrow> (Response 500 (MessageExn ''An error occurred'' TypeError), s4)
                     | Some ms \<Rightarrow>
                         (case map_store (cic_member teamId fs) (enumerate 0 ms) s4 of
                            (rs, s5) \<Rightarrow>
                              (case promise_all rs of
                                 Inl e \<Rightarrow> (Response 500 (MessageExn ''An error occurred'' e), s5)
                               | Inr _ \<Rightarrow>
                                   (Response 201 (Message ''Team and members created successfully''),
                                    s5))))))"

definition cic_new :: "claims \<Rightarrow> create_request \<Rightarrow> store \<Rightarrow> response \<times> store" where
  "cic_new user req s =
     (case data req of
        Absent \<Rightarrow> (Response 400 (MessageError ''Missing team data'' ''DATA_MISSING''), s)
      | Unparsable msg \<Rightarrow> (Response 400 (MessageError ''Invalid JSON data format'' msg), s)
      | Parsed parsedData \<Rightarrow>
          (case p_team parsedData of
             None \<Rightarrow>
               (Response 400
                  (MessageError ''Missing required team or leader data'' ''REQUIRED_FIELDS_MISSING''), s)
           | Some teamData \<Rightarrow>
               (case p_leader parsedData of
                  None \<Rightarrow>
                    (Response 400
                       (MessageError ''Missing required team or leader data'' ''REQUIRED_FIELDS_MISSING''),
                     s)
                | Some leaderData \<Rightarrow>
                    cic_create user (req_files req) teamData leaderData (p_members parsedData) s)))"

text \<open>\<^verbatim>\<open>DELETE /teams/cic/delete/:teamId\<close>\<close>

definition cic_delete :: "nat \<Rightarrow> store \<Rightarrow> response \<times> store" where
  "cic_delete teamId s =
     (Response 200 (Message ''Team and members have been deleted.''),
      delete_teams teamId (delete_members teamId s))"

definition GET_teams_cic :: "ctx \<Rightarrow> string option \<Rightarrow> store \<Rightarrow> response \<times> store" where
  "GET_teams_cic cx authorization s = guarded cx authorization (\<lambda>user. cic_list) s"

definition DELETE_teams_cic :: "ctx \<Rightarrow> string option \<Rightarrow> nat \<Rightarrow> store \<Rightarrow> response \<times> store" where
  "DELETE_teams_cic cx authorization teamId s =
     guarded cx authorization (\<lambda>user. cic_delete teamId) s"


section \<open>routes/sbc\<close>

text \<open>
  \<^verbatim>\<open>GET /teams/sbc\<close>, with \<^verbatim>\<open>eventId = 3\<close>. Each element reads
  \<^verbatim>\<open>event[0].event_name\<close>, which throws when the \<^verbatim>\<open>events\<close> table has no such row.
\<close>

definition sbc_team_view :: "event list \<Rightarrow> store \<Rightarrow> team \<Rightarrow> exn + team_view" where
  "sbc_team_view event s team =
     (let ms = select_members (team_id team) s;
          dosbim' = filter (\<lambda>r. d_team_id r = team_id team) (dosbim s);
          sbc' = filter (\<lambda>r. s_team_id r = team_id team) (sbc s)
      in case event of
           [] \<Rightarrow> Inl TypeError
         | e # _ \<Rightarrow>
             Inr (TeamView team
                    (find (\<lambda>member. is_leader member = 1) ms)
                    (filter (\<lambda>member. is_leader member = 0) ms)
                    (SbcRows dosbim' sbc' (event_name e))))"

definition sbc_list :: "store \<Rightarrow> response \<times> store" where
  "sbc_list s =
     (let event = filter (\<lambda>e. e_event_id e = 3) (events s);
          s0 = query (SELECT Events) s
      in case select_teams_by_event 3 s0 of
           (ts, s1) \<Rightarrow>
             if ts = [] then (Response 404 (Message ''No teams found for SBC''), s1)
             else (let s2 = rounds [SELECT Members, SELECT Dosbim, SELECT Sbc] ts s1
                   in case promise_all (map (sbc_team_view event s1) ts) of
                        Inl e \<Rightarrow> (Response 500 (MessageExn ''An error occurred'' e), s2)
                      | Inr result \<Rightarrow> (Response 200 (TeamList result), s2)))"

text \<open>
  \<^verbatim>\<open>POST /teams/sbc/new\<close>. The whole handler is one \<^verbatim>\<open>try\<close>; its \<^verbatim>\<open>catch\<close> removes
  the request's files with \<^verbatim>\<open>fs.unlink\<close> and answers 500. The handler goes straight
  from the payload to the \<^verbatim>\<open>INSERT\<close> of the team. The insert results the 201 body
  echoes beside its message are left out of the body.
\<close>

definition sbc_catch :: "files \<Rightarrow> exn \<Rightarrow> store \<Rightarrow> response \<times> store" where
  "sbc_catch fs e s =
     (Response 500 (MessageExn ''An error occurred'' e),
      s\<lparr>disk := unlink_each (file_paths fs) (disk s)\<rparr>)"

definition sbc_member :: "nat \<Rightarrow> files \<Rightarrow> nat \<times> member_input \<Rightarrow> store \<Rightarrow> (exn + nat) \<times> store" where
  "sbc_member teamId fs im s =
     (case im of
        (index, member) \<Rightarrow>
          (case insert_member (sbc_member_row teamId member fs (member_field index) 0) s of
             (i, s1) \<Rightarrow> (Inr i, s1)))"

definition sbc_track_rows ::
  "files \<Rightarrow> nat \<Rightarrow> dosbim_input list option \<Rightarrow> sbc_input list option \<Rightarrow> store \<Rightarrow> response \<times> store" where
  "sbc_track_rows fs teamId dosbim' sbc' s =
     (case dosbim' of
        None \<Rightarrow> sbc_catch fs TypeError s
      | Some [] \<Rightarrow> sbc_catch fs (NamedParameterError '':full_name'') s
      | Some (d # _) \<Rightarrow>
          (let s1 = insert_dosbim
                      \<lparr>d_team_id = teamId, d_full_name = in_d_full_name d, nip = in_nip d,
                       d_email = in_d_email d, d_phone_number = in_d_phone_number d,
                       d_photo = file_path fs ''dosbim_photo''\<rparr> s
           in case sbc' of
                None \<Rightarrow> sbc_catch fs TypeError s1
              | Some [] \<Rightarrow> sbc_catch fs (NamedParameterError '':bridge_name'') s1
              | Some (b # _) \<Rightarrow>
                  (Response 201 (Message ''Team created successfully''),
                   insert_sbc \<lparr>s_team_id = teamId, bridge_name = in_bridge_name b\<rparr> s1)))"

definition sbc_create :: "claims \<Rightarrow> files \<Rightarrow> payload \<Rightarrow> store \<Rightarrow> response \<times> store" where
  "sbc_create user fs p s =
     (case p_team p of
        None \<Rightarrow> sbc_catch fs TypeError s
      | Some team \<Rightarrow>
          (case c_user_id user of
             None \<Rightarrow> sbc_catch fs (NamedParameterError '':user_id'') s
           | Some userId \<Rightarrow>
               (case insert_team
                       \<lparr>team_id = 0, team_name = in_team_name team,
                        institution_name = in_institution_name team,
                        payment_proof = file_path fs ''payment_proof'',
                        event_id = 3, user_id = Some userId, email = None,
                        voucher = file_path fs ''voucher'',
                        isVerified = False, isRejected = False, rejectMessage = None\<rparr> s of
                  (teamId, s1) \<Rightarrow>
                    (case p_leader p of
                       None \<Rightarrow> sbc_catch fs (NamedParameterError '':full_name'') s1
                     | Some leader \<Rightarrow>
                         (let s2 = snd (insert_member
                                          (sbc_member_row teamId leader fs leader_field 1) s1)
                          in case p_members p of
                               None \<Rightarrow> sbc_catch fs TypeError s2
                             | Some ms \<Rightarrow>
                                 (case map_store (sbc_member teamId fs) (enumerate 0 ms) s2 of
                                    (rs, s3) \<Rightarrow>
                                      (case promise_all rs of
                                         Inl e \<Rightarrow> sbc_catch fs e s3
                                       | Inr _ \<Rightarrow>
                                           sbc_track_rows fs teamId (p_dosbim p) (p_sbc p) s3)))))))"

definition sbc_new :: "claims \<Rightarrow> create_request \<Rightarrow> store \<Rightarrow> response \<times> store" where
  "sbc_new user req s =
     (case data req of
        Absent \<Rightarrow> sbc_catch (req_files req) SyntaxError s
      | Unparsable msg \<Rightarrow> sbc_catch (req_files req) SyntaxError s
      | Parsed p \<Rightarrow> sbc_create user (req_files req) p s)"

text \<open>\<^verbatim>\<open>DELETE /teams/sbc/delete/:teamId\<close>\<close>

definition sbc_delete :: "nat \<Rightarrow> store \<Rightarrow> response \<times> store" where
  "sbc_delete teamId s =
     (Response 200 (Message ''All related data has been deleted.''),
      delete_teams teamId (delete_members teamId (delete_sbc teamId (delete_dosbim teamId s))))"

definition GET_teams_sbc :: "ctx \<Rightarrow> string option \<Rightarrow> store \<Rightarrow> response \<times> store" where
  "GET_teams_sbc cx authorization s = guarded cx authorization (\<lambda>user. sbc_list) s"

definition DELETE_teams_sbc :: "ctx \<Rightarrow> string option \<Rightarrow> nat \<Rightarrow> store \<Rightarrow> response \<times> store" where
  "DELETE_teams_sbc cx authorization teamId s =
     guarded cx authorization (\<lambda>user. sbc_delete teamId) s"


section \<open>routes/fcec\<close>

text \<open>\<^verbatim>\<open>GET /teams/fcec\<close>, with \<^verbatim>\<open>eventId = 1\<close>.\<close>

definition fcec_team_view :: "store \<Rightarrow> team \<Rightarrow> team_view" where
  "fcec_team_view s team =
     (let ms = select_members (team_id team) s in
      TeamView team
        (find (\<lambda>member. is_leader member = 1) ms)
        (filter (\<lambda>member. is_leader member = 0) ms)
        (FcecRows (filter (\<lambda>r. f_team_id r = team_id team) (fcec s))))"

definition fcec_list :: "store \<Rightarrow> response \<times> store" where
  "fcec_list s =
     (case select_teams_by_event 1 s of
        (ts, s1) \<Rightarrow>
          if ts = [] then (Response 404 (Message ''No teams found for FCEC''), s1)
          else (Response 200 (TeamList (map (fcec_team_view s1) ts)),
                rounds [SELECT Members, SELECT Fcec] ts s1))"

text \<open>
  \<^verbatim>\<open>POST /teams/fcec/new\<close>. The \<^verbatim>\<open>catch\<close> of this handler removes the files with
  \<^verbatim>\<open>fs.unlinkSync\<close>; when that throws in turn, nothing answers the request.
\<close>

definition fcec_catch :: "files \<Rightarrow> exn \<Rightarrow> store \<Rightarrow> response \<times> store" where
  "fcec_catch fs e s =
     (case unlinkSync_each (file_paths fs) (disk s) of
        (None, d) \<Rightarrow> (Response 500 (MessageExn ''An error occurred'' e), s\<lparr>disk := d\<rparr>)
      | (Some _, d) \<Rightarrow> (Hang, s\<lparr>disk := d\<rparr>))"

definition fcec_member :: "nat \<Rightarrow> files \<Rightarrow> nat \<times> member_input \<Rightarrow> store \<Rightarrow> (exn + unit) \<times> store" where
  "fcec_member teamId fs im s =
     (case im of
        (index, member) \<Rightarrow>
          (Inr (), snd (insert_member (fcec_member_row teamId member fs (member_field index) 0) s)))"

definition fcec_create :: "files \<Rightarrow> payload \<Rightarrow> store \<Rightarrow> response \<times> store" where
  "fcec_create fs p s =
     (case p_team p of
        None \<Rightarrow> fcec_catch fs TypeError s
      | Some team \<Rightarrow>
          (case select_team_by_name (in_team_name team) 1 s of
             (existingTeam, s1) \<Rightarrow>
               if existingTeam \<noteq> [] then
                 (case unlinkSync_each (file_paths fs) (disk s1) of
                    (None, d) \<Rightarrow>
                      (Response 400 (MessageError ''Team name already exists'' ''TEAM_NAME_EXISTS''),
                       s1\<lparr>disk := d\<rparr>)
                  | (Some e, d) \<Rightarrow> fcec_catch fs e (s1\<lparr>disk := d\<rparr>))
               else
                 (case insert_team
                         \<lparr>team_id = 0, team_name = in_team_name team,
                          institution_name = in_institution_name team,
                          payment_proof = in_payment_proof team,
                          event_id = 1, user_id = in_user_id team,
                          email = in_team_email team, voucher = None,
                          isVerified = False, isRejected = False, rejectMessage = None\<rparr> s1 of
                    (teamId, s2) \<Rightarrow>
                      (case p_leader p of
                         None \<Rightarrow> fcec_catch fs (NamedParameterError '':full_name'') s2
                       | Some leader \<Rightarrow>
                           (let s3 = snd (insert_member
                                            (fcec_member_row teamId leader fs leader_field 1) s2)
                            in case p_members p of
                                 None \<Rightarrow> fcec_catch fs TypeError s3
                               | Some ms \<Rightarrow>
                                   (case map_store (fcec_member teamId fs) (enumerate 0 ms) s3 of
                                      (rs, s4) \<Rightarrow>
                                        (case promise_all rs of
                                           Inl e \<Rightarrow> fcec_catch fs e s4
                                         | Inr _ \<Rightarrow>
                                             (case p_fcec p of
                                                None \<Rightarrow>
                                                  fcec_catch fs
                                                    (NamedParameterError '':abstract_title'') s4
                                              | Some f \<Rightarrow>
                                                  (Response 201 (Message ''Team created successfully''),
                                                   insert_fcec
                                                     \<lparr>f_team_id = teamId,
                                                      originality_statement =
                                                        file_path fs ''originality_statement'',
                                                      abstract_title = in_abstract_title f,
                                                      abstract_file = file_path fs ''abstract_file'',
                                                      abstract_video_link = in_abstract_video_link f\<rparr>
                                                     s4)))))))))"

definition fcec_new :: "claims \<Rightarrow> create_request \<Rightarrow> store \<Rightarrow> response \<times> store" where
  "fcec_new user req s =
     (case data req of
        Absent \<Rightarrow> fcec_catch (req_files req) SyntaxError s
      | Unparsable msg \<Rightarrow> fcec_catch (req_files req) SyntaxError s
      | Parsed p \<Rightarrow> fcec_create (req_files req) p s)"

text \<open>\<^verbatim>\<open>DELETE /teams/fcec/delete/:teamId\<close>\<close>

definition fcec_delete :: "nat \<Rightarrow> store \<Rightarrow> response \<times> store" where
  "fcec_delete teamId s =
     (Response 200 (Message ''Team and related data have been deleted.''),
      delete_teams teamId (delete_members teamId (delete_fcec teamId s)))"

definition GET_teams_fcec :: "ctx \<Rightarrow> string option \<Rightarrow> store \<Rightarrow> response \<times> store" where
  "GET_teams_fcec cx authorization s = guarded cx authorization (\<lambda>user. fcec_list) s"

definition DELETE_teams_fcec :: "ctx \<Rightarrow> string option \<Rightarrow> nat \<Rightarrow> store \<Rightarrow> response \<times> store" where
  "DELETE_teams_fcec cx authorization teamId s =
     guarded cx authorization (\<lambda>user. fcec_delete teamId) s"


section \<open>routes/users: the login\<close>

text \<open>
  \<^verbatim>\<open>POST /user/login\<close>, a public route. \<^verbatim>\<open>bcrypt.compare\<close> is a parameter; it
  throws on a row without a password hash, and the handler's \<^verbatim>\<open>catch\<close> answers 500.
  The token is signed with the literal \<^verbatim>\<open>'your-secret-key'\<close> and expires after sixty days.
  The response carries the row without its password.
\<close>

definition login ::
  "(jwt \<Rightarrow> string) \<Rightarrow> (string \<Rightarrow> string \<Rightarrow> bool) \<Rightarrow> nat \<Rightarrow> string option \<Rightarrow> string option
     \<Rightarrow> user list \<Rightarrow> response" where
  "login encode bcrypt_compare now username' password' users =
     (case (username', password') of
        (Some name, Some pw) \<Rightarrow>
          if name = [] \<or> pw = []
          then Response 400 (Message ''Username/email and password are required'')
          else
            (case find (\<lambda>u. username u = name \<or> u_email u = name) users of
               None \<Rightarrow> Response 404 (Message ''No user found with the provided username/email'')
             | Some user \<Rightarrow>
                 (case password user of
                    None \<Rightarrow> Response 500 (Message ''An error occurred'')
                  | Some hash \<Rightarrow>
                      if \<not> bcrypt_compare pw hash
                      then Response 401 (Message ''Password is incorrect'')
                      else
                        Response 200
                          (LoggedIn ''User logged in successfully'' (user\<lparr>password := None\<rparr>)
                             (jwt_sign encode now
                                \<lparr>c_id = uid user, c_user_id = None, c_iat = None,
                                 c_nbf = None, c_exp = None\<rparr>
                                ''your-secret-key'' (60 * 24 * 60 * 60)))))
      | _ \<Rightarrow> Response 400 (Message ''Username/email and password are required''))"


section \<open>The names of stored files\<close>

text \<open>
  \<^verbatim>\<open>path.extname\<close> of Node's \<^verbatim>\<open>path\<close> module (POSIX): of the last component of the
  path, trailing slashes apart, the text from the last dot on; empty when there is no
  dot, when the last dot is the component's first character, and for the component
  \<^verbatim>\<open>..\<close>.
\<close>

definition basename :: "string \<Rightarrow> string" where
  "basename path =
     rev (takeWhile (\<lambda>c. c \<noteq> CHR ''/'') (dropWhile (\<lambda>c. c = CHR ''/'') (rev path)))"

definition extname :: "string \<Rightarrow> string" where
  "extname path =
     (let base = basename path;
          ext = takeWhile (\<lambda>c. c \<noteq> CHR ''.'') (rev base);
          stem = drop (length ext + 1) (rev base)
      in if CHR ''.'' \<notin> set base \<or> stem = [] \<or> base = ''..'' then []
         else CHR ''.'' # rev ext)"

text \<open>
  What multer tells the storage engine about an incoming file: the name of the form
  field and the file name the client sent.
\<close>

record upload_file =
  fieldname :: string
  originalname :: string

text \<open>
  The \<^verbatim>\<open>filename\<close> function of \<^verbatim>\<open>multer.diskStorage\<close>, with the same text in the
  routers of CIC, SBC, FCEC and CRAFT. \<open>now\<close> is \<^verbatim>\<open>Date.now()\<close> and \<open>rnd\<close> is
  \<^verbatim>\<open>Math.round(Math.random() * 1e9)\<close>.
\<close>

definition uniqueSuffix :: "nat \<Rightarrow> nat \<Rightarrow> string" where
  "uniqueSuffix now rnd = show_nat now @ ''-'' @ show_nat rnd"

definition cic_filename :: "nat \<Rightarrow> nat \<Rightarrow> upload_file \<Rightarrow> string" where
  "cic_filename now rnd file =
     fieldname file @ ''-'' @ uniqueSuffix now rnd @ extname (originalname file)"

definition sbc_filename :: "nat \<Rightarrow> nat \<Rightarrow> upload_file \<Rightarrow> string" where
  "sbc_filename now rnd file =
     fieldname file @ ''-'' @ uniqueSuffix now rnd @ extname (originalname file)"

definition fcec_filename :: "nat \<Rightarrow> nat \<Rightarrow> upload_file \<Rightarrow> string" where
  "fcec_filename now rnd file =
     fieldname file @ ''-'' @ uniqueSuffix now rnd @ extname (originalname file)"

definition craft_filename :: "nat \<Rightarrow> nat \<Rightarrow> upload_file \<Rightarrow> string" where
  "craft_filename now rnd file =
     fieldname file @ ''-'' @ uniqueSuffix now rnd @ extname (originalname file)"

text \<open>
  The storage of the server's own \<^verbatim>\<open>POST /upload\<close>: the time stamp followed by the
  original name.
\<close>

definition upload_filename :: "nat \<Rightarrow> upload_file \<Rightarrow> string" where
  "upload_filename now file = show_nat now @ ''-'' @ originalname file"


section \<open>Example values\<close>

text \<open>
  A process with \<^verbatim>\<open>JWT_SECRET\<close> unset, at second 2000, and a parser that knows five
  token texts: one signed with the fallback secret and expired at second 1500, one signed
  with the fallback secret and good until second 5000, one signed with another key, one
  signed with the fallback secret that expired at second 1500 and is not to be used
  before second 3000, and the token the login of user 1 at second 1000 prints, signed
  with the key of the login and good for sixty days.
\<close>

definition example_claims :: "nat \<Rightarrow> claims" where
  "example_claims e =
     \<lparr>c_id = None, c_user_id = Some 7, c_iat = Some 1000, c_nbf = None, c_exp = Some e\<rparr>"

definition example_login_claims :: claims where
  "example_login_claims =
     \<lparr>c_id = Some 1, c_user_id = None, c_iat = Some 1000, c_nbf = None,
      c_exp = Some 5185000\<rparr>"

definition example_decode :: "string \<Rightarrow> jwt option" where
  "example_decode text =
     (if text = ''expired'' then Some (JWT (example_claims 1500) ''backendCIA'')
      else if text = ''valid'' then Some (JWT (example_claims 5000) ''backendCIA'')
      else if text = ''forged'' then Some (JWT (example_claims 5000) ''not-the-secret'')
      else if text = ''early''
        then Some (JWT ((example_claims 1500)\<lparr>c_nbf := Some 3000\<rparr>) ''backendCIA'')
      else if text = ''header.payload.your-secret-key''
        then Some (JWT example_login_claims ''your-secret-key'')
      else None)"

definition example_ctx :: ctx where
  "example_ctx = \<lparr>jwt_decode = example_decode, env_JWT_SECRET = None, clock = 2000\<rparr>"

definition empty_store :: store where
  "empty_store =
     \<lparr>teams = [], members = [], dosbim = [], sbc = [], fcec = [], events = [],
      auto_increment_teams = 1, auto_increment_members = 1, last_insert_id = 0,
      disk = {}, journal = []\<rparr>"


text \<open>
  A table of one user, a password check that accepts one password for the stored hash,
  and a printer of tokens whose text ends in the signing key.
\<close>

definition example_users :: "user list" where
  "example_users =
     [\<lparr>uid = Some 1, username = ''ana'', u_email = ''ana@ugm.ac.id'',
       password = Some ''$2b$10$hash''\<rparr>]"

definition example_encode :: "jwt \<Rightarrow> string" where
  "example_encode t = ''header.payload.'' @ mac_key t"

definition example_bcrypt :: "string \<Rightarrow> string \<Rightarrow> bool" where
  "example_bcrypt pw hash = (pw = ''rahasia'' \<and> hash = ''$2b$10$hash'')"


text \<open>
  A store with one team in each of the tracks CIC (event 4), SBC (event 3) and FCEC
  (event 1), their members and track rows, and the \<^verbatim>\<open>events\<close> row of SBC.
\<close>

definition example_team :: "nat \<Rightarrow> string \<Rightarrow> nat \<Rightarrow> team" where
  "example_team i name ev =
     \<lparr>team_id = i, team_name = name, institution_name = Some ''X University'',
      payment_proof = None, event_id = ev, user_id = Some 7, email = None, voucher = None,
      isVerified = False, isRejected = False, rejectMessage = None\<rparr>"

definition example_member :: "nat \<Rightarrow> nat \<Rightarrow> string \<Rightarrow> nat \<Rightarrow> member" where
  "example_member i teamId name flag =
     \<lparr>member_id = i, m_team_id = teamId, full_name = Some name, department = None,
      batch = None, phone_number = None, line_id = None, m_email = None, ktm = None,
      active_student_letter = None, photo = None, twibbon_and_poster_link = None,
      is_leader = flag, nim = None\<rparr>"

definition example_store :: store where
  "example_store =
     \<lparr>teams = [example_team 1 ''Alpha'' 4, example_team 2 ''Garuda'' 3, example_team 3 ''Beton'' 1],
      members = [example_member 1 1 ''Ani'' 1, example_member 2 1 ''Budi'' 0,
                 example_member 3 2 ''Citra'' 1, example_member 4 3 ''Dewi'' 1],
      dosbim = [\<lparr>d_team_id = 2, d_full_name = Some ''Pak Eko'', nip = None, d_email = None,
                 d_phone_number = None, d_photo = None\<rparr>],
      sbc = [\<lparr>s_team_id = 2, bridge_name = Some ''Suramadu''\<rparr>],
      fcec = [\<lparr>f_team_id = 3, originality_statement = None, abstract_title = Some ''Beton hijau'',
               abstract_file = None, abstract_video_link = None\<rparr>],
      events = [\<lparr>e_event_id = 3, event_name = ''SBC''\<rparr>],
      auto_increment_teams = 4, auto_increment_members = 5, last_insert_id = 4,
      disk = {''uploads/cic/old.pdf''}, journal = []\<rparr>"


text \<open>
  A create request: a team of the given name, the leader Lina and members of the given
  names, with an advisor, a bridge and an abstract for the tracks that read them, and
  two stored files.
\<close>

definition example_input :: "string \<Rightarrow> member_input" where
  "example_input name =
     \<lparr>in_teamId = None, in_full_name = Some name, in_department = Some ''Teknik Sipil'',
      in_batch = Some ''2023'',
      in_phone_number = None, in_line_id = None, in_email = Some ''a@ugm.ac.id'',
      in_twibbon_and_poster_link = None, in_nim = None\<rparr>"

definition example_files :: files where
  "example_files =
     [(''payment_proof'', ''uploads/payment_proof-1-2.pdf''),
      (''leader_ktm'', ''uploads/leader_ktm-1-3.png'')]"

definition example_request :: "string \<Rightarrow> string list \<Rightarrow> create_request" where
  "example_request name names =
     \<lparr>data = Parsed
        \<lparr>p_team = Some \<lparr>in_team_name = name, in_institution_name = Some ''X University'',
                         in_payment_proof = None, in_user_id = Some 7, in_team_email = None\<rparr>,
         p_leader = Some (example_input ''Lina''),
         p_members = Some (map example_input names),
         p_dosbim = Some [\<lparr>in_d_full_name = Some ''Pak Eko'', in_nip = None, in_d_email = None,
                          in_d_phone_number = None\<rparr>],
         p_sbc = Some [\<lparr>in_bridge_name = Some ''Ampera''\<rparr>],
         p_fcec = Some \<lparr>in_abstract_title = Some ''Beton'', in_abstract_video_link = None\<rparr>\<rparr>,
      req_files = example_files\<rparr>"

text \<open>
  The same request for a team Beta with the members Made and Nyoman, whose leader object
  has the key \<^verbatim>\<open>teamId\<close> with the id of the team Alpha.
\<close>

definition example_request_teamId :: create_request where
  "example_request_teamId =
     \<lparr>data = Parsed
        \<lparr>p_team = Some \<lparr>in_team_name = ''Beta'', in_institution_name = Some ''X University'',
                         in_payment_proof = None, in_user_id = Some 7, in_team_email = None\<rparr>,
         p_leader = Some ((example_input ''Lina'')\<lparr>in_teamId := Some 1\<rparr>),
         p_members = Some (map example_input [''Made'', ''Nyoman'']),
         p_dosbim = Some [\<lparr>in_d_full_name = Some ''Pak Eko'', in_nip = None, in_d_email = None,
                          in_d_phone_number = None\<rparr>],
         p_sbc = Some [\<lparr>in_bridge_name = Some ''Ampera''\<rparr>],
         p_fcec = Some \<lparr>in_abstract_title = Some ''Beton'', in_abstract_video_link = None\<rparr>\<rparr>,
      req_files = example_files\<rparr>"

text \<open>The example store after multer has stored the two files of the request.\<close>

definition example_store_uploaded :: store where
  "example_store_uploaded =
     example_store\<lparr>disk := {''uploads/cic/old.pdf'', ''uploads/payment_proof-1-2.pdf'',
                              ''uploads/leader_ktm-1-3.png''}\<rparr>"


section \<open>Notions of the proofs\<close>

text \<open>
  What a successful create leaves behind, as the proofs about the lists use it: one more
  team row, with the next key and the track's event, and after the old member rows the
  leader's row and then rows that are not leaders, all with the new team's id. And what
  a list then shows of that team: its rows are a leader followed by non-leaders, and
  the list has an element with that leader and those members. A request has no key
  \<^verbatim>\<open>teamId\<close> when neither its leader object nor any of its member objects has one.
\<close>

definition team_created :: "nat \<Rightarrow> store \<Rightarrow> store \<Rightarrow> bool" where
  "team_created ev s s' =
     (\<exists>t l new.
        teams s' = teams s @ [t] \<and> team_id t = auto_increment_teams s \<and> event_id t = ev
        \<and> members s' = members s @ l # new
        \<and> m_team_id l = auto_increment_teams s \<and> is_leader l = 1
        \<and> (\<forall>r \<in> set new. m_team_id r = auto_increment_teams s \<and> is_leader r = 0)
        \<and> events s' = events s)"

definition no_teamId_key :: "create_request \<Rightarrow> bool" where
  "no_teamId_key req =
     (case data req of
        Parsed p \<Rightarrow>
          (case p_leader p of None \<Rightarrow> True | Some l \<Rightarrow> in_teamId l = None)
          \<and> (case p_members p of None \<Rightarrow> True | Some ms \<Rightarrow> \<forall>m \<in> set ms. in_teamId m = None)
      | _ \<Rightarrow> True)"

definition leader_listed :: "nat \<Rightarrow> store \<Rightarrow> response \<Rightarrow> bool" where
  "leader_listed teamId s' r =
     (\<exists>l rest.
        filter (\<lambda>m. m_team_id m = teamId) (members s') = l # rest
        \<and> is_leader l = 1 \<and> (\<forall>m \<in> set rest. is_leader m = 0)
        \<and> (\<exists>views t tr. r = Response 200 (TeamList views) \<and> team_id t = teamId
                          \<and> TeamView t (Some l) rest tr \<in> set views))"


section \<open>The credential verifier: properties\<close>

lemma split_not_Nil: "split sep s \<noteq> []"
  by (induction s) (auto split: list.splits)

lemma bearer_token_absent: "bearer_token None = None"
  by (simp add: bearer_token_def)

text \<open>
  C1, amended. A request to a guarded route is answered by the middleware alone, with
  the store as it was and whatever the handler is, in these cases: no token in the
  \<^verbatim>\<open>Authorization\<close> header (the header is absent, or has no second word, or an empty
  one) gives 401 ``Authentication token is required''; a token that does not parse, or
  whose signature is not under the verifier's secret, gives 403 ``Invalid token''; a
  token that parses, is signed under the secret and is not yet active (its \<^verbatim>\<open>nbf\<close> is
  after the clock) gives 403 ``Invalid token'', whatever its \<^verbatim>\<open>exp\<close>; a token that
  parses, is signed under the secret, is active and whose \<^verbatim>\<open>exp\<close> is not after the
  clock gives 401 ``Token has expired''.
\<close>

theorem authenticateToken_rejects:
  fixes handler :: "claims \<Rightarrow> 's \<Rightarrow> response \<times> 's"
  shows
  "((bearer_token authHeader = None \<or> bearer_token authHeader = Some [])
      \<longrightarrow> authenticateToken cx authHeader
            = Respond (Response 401 (Message ''Authentication token is required''))
        \<and> guarded cx authHeader handler s
            = (Response 401 (Message ''Authentication token is required''), s))
   \<and> (\<forall>token. bearer_token authHeader = Some token \<and> token \<noteq> []
         \<and> (jwt_decode cx token = None
              \<or> (\<exists>t. jwt_decode cx token = Some t
                       \<and> mac_key t \<noteq> JWT_SECRET (env_JWT_SECRET cx)))
      \<longrightarrow> authenticateToken cx authHeader = Respond (Response 403 (Message ''Invalid token''))
        \<and> guarded cx authHeader handler s = (Response 403 (Message ''Invalid token''), s))
   \<and> (\<forall>token t n. bearer_token authHeader = Some token \<and> token \<noteq> []
         \<and> jwt_decode cx token = Some t
         \<and> mac_key t = JWT_SECRET (env_JWT_SECRET cx)
         \<and> c_nbf (payload t) = Some n \<and> clock cx < n
      \<longrightarrow> authenticateToken cx authHeader = Respond (Response 403 (Message ''Invalid token''))
        \<and> guarded cx authHeader handler s = (Response 403 (Message ''Invalid token''), s))
   \<and> (\<forall>token t e. bearer_token authHeader = Some token \<and> token \<noteq> []
         \<and> jwt_decode cx token = Some t
         \<and> mac_key t = JWT_SECRET (env_JWT_SECRET cx)
         \<and> (\<forall>n. c_nbf (payload t) = Some n \<longrightarrow> n \<le> clock cx)
         \<and> c_exp (payload t) = Some e \<and> e \<le> clock cx
      \<longrightarrow> authenticateToken cx authHeader = Respond (Response 401 (Message ''Token has expired''))
        \<and> guarded cx authHeader handler s = (Response 401 (Message ''Token has expired''), s))"
  by (auto simp: guarded_def authenticateToken_def jwt_verify_def split: option.splits)

theorem authenticateToken_rejects_witness:
  "guarded example_ctx None (\<lambda>user. cic_list) empty_store
     = (Response 401 (Message ''Authentication token is required''), empty_store)
   \<and> guarded example_ctx (Some ''Bearer'') (\<lambda>user. cic_list) empty_store
     = (Response 401 (Message ''Authentication token is required''), empty_store)
   \<and> guarded example_ctx (Some ''Bearer not.a.token'') (\<lambda>user. cic_list) empty_store
     = (Response 403 (Message ''Invalid token''), empty_store)
   \<and> guarded example_ctx (Some ''Bearer forged'') (\<lambda>user. cic_list) empty_store
     = (Response 403 (Message ''Invalid token''), empty_store)
   \<and> guarded example_ctx (Some ''Bearer early'') (\<lambda>user. cic_list) empty_store
     = (Response 403 (Message ''Invalid token''), empty_store)
   \<and> guarded example_ctx (Some ''Bearer expired'') (\<lambda>user. cic_list) empty_store
     = (Response 401 (Message ''Token has expired''), empty_store)"
proof -
  let ?h = "\<lambda>user::claims. cic_list"
  have absent: "bearer_token None = None"
    and bare: "bearer_token (Some ''Bearer'') = None"
    and junk: "bearer_token (Some ''Bearer not.a.token'') = Some ''not.a.token''"
    and forged: "bearer_token (Some ''Bearer forged'') = Some ''forged''"
    and early: "bearer_token (Some ''Bearer early'') = Some ''early''"
    and expired: "bearer_token (Some ''Bearer expired'') = Some ''expired''"
    by (simp_all add: bearer_token_def)
  have secret: "JWT_SECRET (env_JWT_SECRET example_ctx) = ''backendCIA''"
    by (simp add: JWT_SECRET_def example_ctx_def)
  have d1: "jwt_decode example_ctx ''not.a.token'' = None"
    and d2: "jwt_decode example_ctx ''forged'' = Some (JWT (example_claims 5000) ''not-the-secret'')"
    and d3: "jwt_decode example_ctx ''expired'' = Some (JWT (example_claims 1500) ''backendCIA'')"
    and d4: "jwt_decode example_ctx ''early''
               = Some (JWT ((example_claims 1500)\<lparr>c_nbf := Some 3000\<rparr>) ''backendCIA'')"
    by (simp_all add: example_ctx_def example_decode_def)
  have times: "\<forall>n. c_nbf (payload (JWT (example_claims 1500) ''backendCIA'')) = Some n
                 \<longrightarrow> n \<le> clock example_ctx"
    and exp: "c_exp (payload (JWT (example_claims 1500) ''backendCIA'')) = Some 1500"
    and past: "1500 \<le> clock example_ctx"
    and nbf: "c_nbf (payload (JWT ((example_claims 1500)\<lparr>c_nbf := Some 3000\<rparr>) ''backendCIA''))
                = Some 3000"
    and future: "clock example_ctx < 3000"
    by (simp_all add: example_claims_def example_ctx_def)
  show ?thesis
    using authenticateToken_rejects [of None example_ctx ?h empty_store] absent
      authenticateToken_rejects [of "Some ''Bearer''" example_ctx ?h empty_store] bare
      authenticateToken_rejects [of "Some ''Bearer not.a.token''" example_ctx ?h empty_store]
      junk d1
      authenticateToken_rejects [of "Some ''Bearer forged''" example_ctx ?h empty_store]
      forged d2 secret
      authenticateToken_rejects [of "Some ''Bearer early''" example_ctx ?h empty_store]
      early d4 nbf future
      authenticateToken_rejects [of "Some ''Bearer expired''" example_ctx ?h empty_store]
      expired d3 times exp past
    by simp
qed

text \<open>
  C1, as stated, fails: a token that parses and is signed under the verifier's secret,
  whose \<^verbatim>\<open>exp\<close> (second 1500) is past at the clock (second 2000), but whose \<^verbatim>\<open>nbf\<close>
  (second 3000) is still to come, is answered 403 ``Invalid token'' and not 401 ``Token
  has expired'': the library compares \<^verbatim>\<open>nbf\<close> before \<^verbatim>\<open>exp\<close>, and the middleware
  answers 401 to \<^verbatim>\<open>TokenExpiredError\<close> only.
\<close>

theorem expired_token_not_yet_active:
  "jwt_decode example_ctx ''early''
     = Some (JWT \<lparr>c_id = None, c_user_id = Some 7, c_iat = Some 1000, c_nbf = Some 3000,
                   c_exp = Some 1500\<rparr> ''backendCIA'')
   \<and> JWT_SECRET (env_JWT_SECRET example_ctx) = ''backendCIA''
   \<and> clock example_ctx = 2000
   \<and> authenticateToken example_ctx (Some ''Bearer early'')
     = Respond (Response 403 (Message ''Invalid token''))
   \<and> guarded example_ctx (Some ''Bearer early'') (\<lambda>user. cic_list) example_store
     = (Response 403 (Message ''Invalid token''), example_store)"
  by (simp add: guarded_def authenticateToken_def bearer_token_def jwt_verify_def JWT_SECRET_def
      example_ctx_def example_decode_def example_claims_def)

lemma split_no_separator: "sep \<notin> set s \<Longrightarrow> split sep s = [s]"
  by (induction s) auto

lemma split_append_separator:
  "sep \<notin> set a \<Longrightarrow> split sep (a @ sep # b) = a # split sep b"
  by (induction a) auto

lemma bearer_token_Bearer:
  "CHR '' '' \<notin> set token \<Longrightarrow> bearer_token (Some (''Bearer '' @ token)) = Some token"
  using split_append_separator [of "CHR '' ''" "''Bearer''" token]
  by (simp add: bearer_token_def split_no_separator)

lemma login_token:
  assumes "login encode bcrypt_compare now username' password' users
             = Response st (LoggedIn msg u token)"
  shows "\<exists>p. token = encode (JWT p ''your-secret-key'')"
  using assms
  by (auto simp: login_def jwt_sign_def split: option.splits if_splits)

text \<open>
  When the verifier's parser reads back what the signer printed, what it reads from a
  token of the login is signed with the login's key.
\<close>

lemma parser_reads_login_key:
  assumes "login encode bcrypt_compare now username' password' users
             = Response st (LoggedIn msg u token)"
    and "\<And>t. jwt_decode cx (encode t) = Some t"
    and "jwt_decode cx token = Some t"
  shows "mac_key t = ''your-secret-key''"
  using login_token [OF assms(1)] assms(2,3) by auto

text \<open>
  C4. The login signs with \<^verbatim>\<open>'your-secret-key'\<close>; the verifier checks against
  \<^verbatim>\<open>JWT_SECRET\<close>, which is \<^verbatim>\<open>'backendCIA'\<close> when the variable is unset. Whenever the
  verifier's secret is not \<^verbatim>\<open>'your-secret-key'\<close>, every token a login returns, sent
  back as \<^verbatim>\<open>Authorization: Bearer <token>\<close>, is answered 403 ``Invalid token'' at any
  time of the clock, and the handler behind the verifier does not run. The token text
  is taken to be non-empty and free of spaces, and the parser to read from it nothing
  but a token under the key it was signed with.
\<close>

theorem login_token_is_rejected:
  fixes handler :: "claims \<Rightarrow> 's \<Rightarrow> response \<times> 's"
  assumes issued: "login encode bcrypt_compare now username' password' users
                     = Response st (LoggedIn msg u token)"
    and parser: "\<And>t. jwt_decode cx token = Some t \<Longrightarrow> mac_key t = ''your-secret-key''"
    and printable: "token \<noteq> []" "CHR '' '' \<notin> set token"
    and secret: "JWT_SECRET (env_JWT_SECRET cx) \<noteq> ''your-secret-key''"
  shows "(\<exists>p. token = encode (JWT p ''your-secret-key''))
         \<and> JWT_SECRET None = ''backendCIA''
         \<and> authenticateToken cx (Some (''Bearer '' @ token))
           = Respond (Response 403 (Message ''Invalid token''))
         \<and> guarded cx (Some (''Bearer '' @ token)) handler s
           = (Response 403 (Message ''Invalid token''), s)"
proof -
  have "jwt_verify (jwt_decode cx) (clock cx) token (JWT_SECRET (env_JWT_SECRET cx))
          = Inl JsonWebTokenError"
    using secret parser by (auto simp: jwt_verify_def split: option.splits)
  moreover have "bearer_token (Some (''Bearer '' @ token)) = Some token"
    using printable(2) by (rule bearer_token_Bearer)
  moreover have "JWT_SECRET None = ''backendCIA''"
    by (simp add: JWT_SECRET_def)
  ultimately show ?thesis
    using printable login_token [OF issued]
    by (simp add: guarded_def authenticateToken_def)
qed

theorem login_token_is_rejected_witness:
  "login example_encode example_bcrypt 1000 (Some ''ana'') (Some ''rahasia'') example_users
     = Response 200 (LoggedIn ''User logged in successfully''
         \<lparr>uid = Some 1, username = ''ana'', u_email = ''ana@ugm.ac.id'', password = None\<rparr>
         ''header.payload.your-secret-key'')
   \<and> jwt_decode example_ctx ''header.payload.your-secret-key''
     = Some (JWT \<lparr>c_id = Some 1, c_user_id = None, c_iat = Some 1000, c_nbf = None,
                   c_exp = Some 5185000\<rparr> ''your-secret-key'')
   \<and> JWT_SECRET (env_JWT_SECRET example_ctx) = ''backendCIA''
   \<and> authenticateToken example_ctx (Some ''Bearer header.payload.your-secret-key'')
     = Respond (Response 403 (Message ''Invalid token''))
   \<and> guarded example_ctx (Some ''Bearer header.payload.your-secret-key'')
       (\<lambda>user. cic_list) empty_store
     = (Response 403 (Message ''Invalid token''), empty_store)
   \<and> authenticateToken (example_ctx\<lparr>env_JWT_SECRET := Some ''your-secret-key''\<rparr>)
       (Some ''Bearer header.payload.your-secret-key'')
     = Next \<lparr>c_id = Some 1, c_user_id = None, c_iat = Some 1000, c_nbf = None,
             c_exp = Some 5185000\<rparr>"
proof -
  have issued:
    "login example_encode example_bcrypt 1000 (Some ''ana'') (Some ''rahasia'') example_users
       = Response 200 (LoggedIn ''User logged in successfully''
           \<lparr>uid = Some 1, username = ''ana'', u_email = ''ana@ugm.ac.id'', password = None\<rparr>
           ''header.payload.your-secret-key'')"
    by (simp add: login_def example_users_def example_bcrypt_def example_encode_def jwt_sign_def)
  have read: "jwt_decode example_ctx ''header.payload.your-secret-key''
                = Some (JWT \<lparr>c_id = Some 1, c_user_id = None, c_iat = Some 1000, c_nbf = None,
                              c_exp = Some 5185000\<rparr> ''your-secret-key'')"
    by (simp add: example_ctx_def example_decode_def example_login_claims_def)
  have parser: "\<And>t. jwt_decode example_ctx ''header.payload.your-secret-key'' = Some t
                  \<Longrightarrow> mac_key t = ''your-secret-key''"
    unfolding read by auto
  have secret: "JWT_SECRET (env_JWT_SECRET example_ctx) \<noteq> ''your-secret-key''"
    and fallback: "JWT_SECRET (env_JWT_SECRET example_ctx) = ''backendCIA''"
    by (simp_all add: JWT_SECRET_def example_ctx_def)
  have accepted:
    "authenticateToken (example_ctx\<lparr>env_JWT_SECRET := Some ''your-secret-key''\<rparr>)
       (Some ''Bearer header.payload.your-secret-key'')
     = Next \<lparr>c_id = Some 1, c_user_id = None, c_iat = Some 1000, c_nbf = None,
             c_exp = Some 5185000\<rparr>"
    by (simp add: authenticateToken_def bearer_token_def jwt_verify_def JWT_SECRET_def
        example_ctx_def example_decode_def example_login_claims_def)
  show ?thesis
    using login_token_is_rejected [OF issued parser _ _ secret, of "\<lambda>user. cic_list" empty_store]
      issued read fallback accepted
    by simp
qed

section \<open>Verification and rejection of a team\<close>

lemma map_unless_present:
  "teamId \<notin> team_id ` set ts \<Longrightarrow> map (\<lambda>t. if team_id t = teamId then f t else t) ts = ts"
  by (induction ts) auto

lemma filter_after_update:
  assumes "\<And>t. team_id (f t) = team_id t"
  shows "filter (\<lambda>t. team_id t = teamId) (map (\<lambda>t. if team_id t = teamId then f t else t) ts) = []
          \<longleftrightarrow> filter (\<lambda>t. team_id t = teamId) ts = []"
  by (induction ts) (auto simp: assms)

text \<open>
  C7. On a team that exists, the verification answers 200 and sets \<^verbatim>\<open>isVerified\<close> of
  that team, leaving \<^verbatim>\<open>isRejected\<close> and \<^verbatim>\<open>rejectMessage\<close> of every team as they were;
  the rejection (with a message in the body) answers 200, sets \<^verbatim>\<open>isRejected\<close> and
  stores the message for that team, leaving \<^verbatim>\<open>isVerified\<close> of every team as it was.
  Applied one after the other, in either order, the two leave the team verified,
  rejected and with the message, and every other column and row unchanged.
\<close>

theorem verify_and_reject_frame:
  assumes "teamId \<in> team_id ` set (teams s)"
  shows
  "fst (teams_verify teamId s) = Response 200 (StatusMessage ''success'' ''Tim Berhasil Diverifikasi'')
   \<and> map isVerified (teams (snd (teams_verify teamId s)))
       = map (\<lambda>t. team_id t = teamId \<or> isVerified t) (teams s)
   \<and> map isRejected (teams (snd (teams_verify teamId s))) = map isRejected (teams s)
   \<and> map rejectMessage (teams (snd (teams_verify teamId s))) = map rejectMessage (teams s)
   \<and> fst (teams_reject teamId (Some message) s)
       = Response 200 (Message ''Team rejection status updated successfully'')
   \<and> map isRejected (teams (snd (teams_reject teamId (Some message) s)))
       = map (\<lambda>t. team_id t = teamId \<or> isRejected t) (teams s)
   \<and> map rejectMessage (teams (snd (teams_reject teamId (Some message) s)))
       = map (\<lambda>t. if team_id t = teamId then message else rejectMessage t) (teams s)
   \<and> map isVerified (teams (snd (teams_reject teamId (Some message) s))) = map isVerified (teams s)
   \<and> teams (snd (teams_reject teamId (Some message) (snd (teams_verify teamId s))))
       = map (\<lambda>t. if team_id t = teamId
                   then t\<lparr>isVerified := True, isRejected := True, rejectMessage := message\<rparr>
                   else t) (teams s)
   \<and> teams (snd (teams_verify teamId (snd (teams_reject teamId (Some message) s))))
       = map (\<lambda>t. if team_id t = teamId
                   then t\<lparr>isVerified := True, isRejected := True, rejectMessage := message\<rparr>
                   else t) (teams s)"
proof -
  have ex: "filter (\<lambda>t. team_id t = teamId) (teams s) \<noteq> []"
    using assms by (auto simp: filter_empty_conv)
  have ex': "filter (\<lambda>t. team_id t = teamId)
               (map (\<lambda>t. if team_id t = teamId
                   then t\<lparr>isRejected := True, rejectMessage := message\<rparr>
                   else t) (teams s)) \<noteq> []"
    using ex by (subst filter_after_update) simp_all
  show ?thesis
    using ex ex'
    by (simp add: teams_verify_def teams_reject_def query_def Let_def o_def cong: if_cong)
qed

theorem verify_and_reject_frame_witness:
  "1 \<in> team_id ` set (teams example_store)
   \<and> map isVerified (teams (snd (teams_verify 1 example_store))) = [True, False, False]
   \<and> map isRejected (teams (snd (teams_verify 1 example_store))) = [False, False, False]
   \<and> map rejectMessage (teams (snd (teams_verify 1 example_store))) = [None, None, None]
   \<and> map isRejected (teams (snd (teams_reject 1 (Some (Some ''berkas kurang'')) example_store)))
       = [True, False, False]
   \<and> map rejectMessage (teams (snd (teams_reject 1 (Some (Some ''berkas kurang'')) example_store)))
       = [Some ''berkas kurang'', None, None]
   \<and> map isVerified (teams (snd (teams_reject 1 (Some (Some ''berkas kurang'')) example_store)))
       = [False, False, False]
   \<and> teams (snd (teams_reject 1 (Some (Some ''berkas kurang'')) (snd (teams_verify 1 example_store))))
       = teams (snd (teams_verify 1 (snd (teams_reject 1 (Some (Some ''berkas kurang'')) example_store))))"
proof -
  have present: "1 \<in> team_id ` set (teams example_store)"
    by (simp add: example_store_def example_team_def)
  show ?thesis
    using verify_and_reject_frame [OF present, of "Some ''berkas kurang''"] present
    by (simp add: example_store_def example_team_def)
qed

text \<open>
  C10. The rejection has no existence check: for a team id no row has, it issues its
  \<^verbatim>\<open>UPDATE\<close>, which changes nothing, and answers 200 ``Team rejection status updated
  successfully''. The verification of the same id selects first and answers 404.
\<close>

theorem reject_without_existence_check:
  assumes "teamId \<notin> team_id ` set (teams s)"
  shows "teams_reject teamId (Some message) s
           = (Response 200 (Message ''Team rejection status updated successfully''),
              s\<lparr>journal := journal s @ [UPDATE Teams teamId]\<rparr>)
         \<and> teams_verify teamId s
           = (Response 404 (StatusMessage ''error'' ''Tim tidak ditemukan''),
              s\<lparr>journal := journal s @ [SELECT Teams]\<rparr>)"
proof -
  have "filter (\<lambda>t. team_id t = teamId) (teams s) = []"
    using assms by (auto simp: filter_empty_conv)
  then show ?thesis
    using map_unless_present [OF assms]
    by (simp add: teams_verify_def teams_reject_def query_def Let_def)
qed

theorem reject_without_existence_check_witness:
  "99 \<notin> team_id ` set (teams example_store)
   \<and> PUT_teams_reject example_ctx (Some ''Bearer valid'') 99 (Some (Some ''berkas kurang''))
       example_store
     = (Response 200 (Message ''Team rejection status updated successfully''),
        example_store\<lparr>journal := [UPDATE Teams 99]\<rparr>)
   \<and> PUT_teams_verify example_ctx (Some ''Bearer valid'') 99 example_store
     = (Response 404 (StatusMessage ''error'' ''Tim tidak ditemukan''),
        example_store\<lparr>journal := [SELECT Teams]\<rparr>)"
proof -
  have absent: "99 \<notin> team_id ` set (teams example_store)"
    by (simp add: example_store_def example_team_def)
  have token: "authenticateToken example_ctx (Some ''Bearer valid'') = Next (example_claims 5000)"
    by (simp add: authenticateToken_def bearer_token_def jwt_verify_def example_ctx_def
        example_decode_def example_claims_def JWT_SECRET_def)
  have journal: "journal example_store = []"
    by (simp add: example_store_def)
  show ?thesis
    using reject_without_existence_check [OF absent, of "Some ''berkas kurang''"] absent token journal
    by (simp add: PUT_teams_reject_def PUT_teams_verify_def guarded_def)
qed

section \<open>Deletion of a team\<close>

text \<open>
  C6. The delete routes of CIC, SBC and FCEC issue their \<^verbatim>\<open>DELETE\<close> statements for
  the team id in the order: rows of the track's own tables (\<^verbatim>\<open>dosbim\<close> and \<^verbatim>\<open>sbc\<close> for
  SBC, \<^verbatim>\<open>fcec\<close> for FCEC, none for CIC), then the member rows, then the team row.
  Afterwards a selection by that team id from the track tables, from \<^verbatim>\<open>members\<close> and
  from \<^verbatim>\<open>teams\<close> is empty, and the answer is 200.
\<close>

theorem delete_in_dependency_order:
  "journal (snd (cic_delete teamId s))
     = journal s @ [DELETE Members teamId, DELETE Teams teamId]
   \<and> journal (snd (sbc_delete teamId s))
     = journal s @ [DELETE Dosbim teamId, DELETE Sbc teamId, DELETE Members teamId, DELETE Teams teamId]
   \<and> journal (snd (fcec_delete teamId s))
     = journal s @ [DELETE Fcec teamId, DELETE Members teamId, DELETE Teams teamId]
   \<and> filter (\<lambda>m. m_team_id m = teamId) (members (snd (cic_delete teamId s))) = []
   \<and> filter (\<lambda>t. team_id t = teamId) (teams (snd (cic_delete teamId s))) = []
   \<and> filter (\<lambda>r. d_team_id r = teamId) (dosbim (snd (sbc_delete teamId s))) = []
   \<and> filter (\<lambda>r. s_team_id r = teamId) (sbc (snd (sbc_delete teamId s))) = []
   \<and> filter (\<lambda>m. m_team_id m = teamId) (members (snd (sbc_delete teamId s))) = []
   \<and> filter (\<lambda>t. team_id t = teamId) (teams (snd (sbc_delete teamId s))) = []
   \<and> filter (\<lambda>r. f_team_id r = teamId) (fcec (snd (fcec_delete teamId s))) = []
   \<and> filter (\<lambda>m. m_team_id m = teamId) (members (snd (fcec_delete teamId s))) = []
   \<and> filter (\<lambda>t. team_id t = teamId) (teams (snd (fcec_delete teamId s))) = []
   \<and> fst (cic_delete teamId s) = Response 200 (Message ''Team and members have been deleted.'')
   \<and> fst (sbc_delete teamId s) = Response 200 (Message ''All related data has been deleted.'')
   \<and> fst (fcec_delete teamId s) = Response 200 (Message ''Team and related data have been deleted.'')"
  by (simp add: cic_delete_def sbc_delete_def fcec_delete_def delete_teams_def delete_members_def
      delete_sbc_def delete_dosbim_def delete_fcec_def query_def)

theorem delete_in_dependency_order_witness:
  "journal (snd (DELETE_teams_sbc example_ctx (Some ''Bearer valid'') 2 example_store))
     = [DELETE Dosbim 2, DELETE Sbc 2, DELETE Members 2, DELETE Teams 2]
   \<and> map member_id (members (snd (sbc_delete 2 example_store))) = [1, 2, 4]
   \<and> sbc (snd (sbc_delete 2 example_store)) = []
   \<and> dosbim (snd (sbc_delete 2 example_store)) = []
   \<and> map team_id (teams (snd (sbc_delete 2 example_store))) = [1, 3]"
proof -
  have token: "authenticateToken example_ctx (Some ''Bearer valid'') = Next (example_claims 5000)"
    by (simp add: authenticateToken_def bearer_token_def jwt_verify_def example_ctx_def
        example_decode_def example_claims_def JWT_SECRET_def)
  have rows: "members (snd (sbc_delete 2 example_store))
                = filter (\<lambda>m. m_team_id m \<noteq> 2) (members example_store)"
    "sbc (snd (sbc_delete 2 example_store)) = filter (\<lambda>r. s_team_id r \<noteq> 2) (sbc example_store)"
    "dosbim (snd (sbc_delete 2 example_store)) = filter (\<lambda>r. d_team_id r \<noteq> 2) (dosbim example_store)"
    "teams (snd (sbc_delete 2 example_store)) = filter (\<lambda>t. team_id t \<noteq> 2) (teams example_store)"
    by (simp_all add: sbc_delete_def delete_teams_def delete_members_def
      delete_sbc_def delete_dosbim_def query_def)
  show ?thesis
    using delete_in_dependency_order [of 2 example_store] token rows
    by (simp add: DELETE_teams_sbc_def guarded_def example_store_def example_team_def example_member_def)
qed

section \<open>The names of stored files: properties\<close>

lemma show_nat_digit: "n < 10 \<Longrightarrow> show_nat n = [digit n]"
  by (simp add: show_nat.simps)

lemma show_nat_step: "10 \<le> n \<Longrightarrow> show_nat n = show_nat (n div 10) @ [digit (n mod 10)]"
  by (subst show_nat.simps) simp

lemma basename_no_slash: "CHR ''/'' \<notin> set (basename path)"
  unfolding basename_def using set_takeWhileD by fastforce

lemma extname_no_slash: "CHR ''/'' \<notin> set (extname path)"
proof -
  have "set (takeWhile (\<lambda>c. c \<noteq> CHR ''.'') (rev (basename path))) \<subseteq> set (basename path)"
    using set_takeWhileD by fastforce
  then show ?thesis
    using basename_no_slash [of path] by (auto simp: extname_def Let_def)
qed

lemma extname_shape: "extname path = [] \<or> hd (extname path) = CHR ''.''"
  by (simp add: extname_def Let_def)

text \<open>
  C9, as stated, fails on the storage of \<^verbatim>\<open>POST /upload\<close>: two files of the same field
  with the same extension are stored, at the same instant, under two names, each the
  time stamp followed by the whole name the client sent; there is no field name and no
  random number in them.
\<close>

theorem upload_keeps_client_filename:
  "upload_filename 1700000000000 \<lparr>fieldname = ''file'', originalname = ''cv.pdf''\<rparr>
     = ''1700000000000-cv.pdf''
   \<and> upload_filename 1700000000000 \<lparr>fieldname = ''file'', originalname = ''x.pdf''\<rparr>
     = ''1700000000000-x.pdf''
   \<and> extname ''cv.pdf'' = extname ''x.pdf''"
  by (simp add: upload_filename_def show_nat_step show_nat_digit digit_def extname_def basename_def)

text \<open>
  C9, amended. The disk storage of the CIC, SBC, FCEC and CRAFT routers names a file by
  its field, the time stamp, the random number and \<^verbatim>\<open>path.extname\<close> of the client's file
  name. That extension is empty or starts with a dot and holds no slash, and it is all
  that comes from the client's file name: two files of one field whose names have the
  same extension get the same stored name. The storage of \<^verbatim>\<open>POST /upload\<close> names a
  file by the time stamp followed by the client's file name.
\<close>

theorem stored_filename_form:
  "cic_filename now rnd file
     = fieldname file @ ''-'' @ show_nat now @ ''-'' @ show_nat rnd @ extname (originalname file)
   \<and> sbc_filename now rnd file
     = fieldname file @ ''-'' @ show_nat now @ ''-'' @ show_nat rnd @ extname (originalname file)
   \<and> fcec_filename now rnd file
     = fieldname file @ ''-'' @ show_nat now @ ''-'' @ show_nat rnd @ extname (originalname file)
   \<and> craft_filename now rnd file
     = fieldname file @ ''-'' @ show_nat now @ ''-'' @ show_nat rnd @ extname (originalname file)
   \<and> (extname (originalname file) = [] \<or> hd (extname (originalname file)) = CHR ''.'')
   \<and> CHR ''/'' \<notin> set (extname (originalname file))
   \<and> (fieldname other = fieldname file
        \<and> extname (originalname other) = extname (originalname file)
      \<longrightarrow> cic_filename now rnd other = cic_filename now rnd file
        \<and> sbc_filename now rnd other = sbc_filename now rnd file
        \<and> fcec_filename now rnd other = fcec_filename now rnd file
        \<and> craft_filename now rnd other = craft_filename now rnd file)
   \<and> upload_filename now file = show_nat now @ ''-'' @ originalname file"
  using extname_shape [of "originalname file"] extname_no_slash [of "originalname file"]
  by (simp add: cic_filename_def sbc_filename_def fcec_filename_def craft_filename_def
      uniqueSuffix_def upload_filename_def)

theorem stored_filename_form_witness:
  "cic_filename 1700000000000 123456789
     \<lparr>fieldname = ''leader_ktm'', originalname = ''Kartu Mahasiswa.final.PDF''\<rparr>
     = ''leader_ktm-1700000000000-123456789.PDF''
   \<and> cic_filename 1700000000000 123456789 \<lparr>fieldname = ''leader_ktm'', originalname = ''x.PDF''\<rparr>
     = cic_filename 1700000000000 123456789
         \<lparr>fieldname = ''leader_ktm'', originalname = ''Kartu Mahasiswa.final.PDF''\<rparr>"
proof -
  have ext: "extname ''Kartu Mahasiswa.final.PDF'' = ''.PDF''" "extname ''x.PDF'' = ''.PDF''"
    by (simp_all add: extname_def basename_def)
  have num: "show_nat 1700000000000 = ''1700000000000''" "show_nat 123456789 = ''123456789''"
    by (simp_all add: show_nat_step show_nat_digit digit_def)
  show ?thesis
    using stored_filename_form [of 1700000000000 123456789
        "\<lparr>fieldname = ''leader_ktm'', originalname = ''Kartu Mahasiswa.final.PDF''\<rparr>"
        "\<lparr>fieldname = ''leader_ktm'', originalname = ''x.PDF''\<rparr>"] ext num
    by simp
qed

section \<open>Creation of a CIC team\<close>

lemma insert_member_snd:
  "snd (insert_member row s)
     = s\<lparr>members := members s @ [row\<lparr>member_id := auto_increment_members s\<rparr>],
         auto_increment_members := Suc (auto_increment_members s),
         last_insert_id := auto_increment_members s,
         journal := journal s @ [INSERT Members]\<rparr>"
  by (simp add: insert_member_def query_def Let_def)

lemma cic_members_loop:
  "\<exists>new. members (snd (map_store (cic_member teamId fs) (enumerate k ms) s)) = members s @ new
     \<and> map (\<lambda>r. r\<lparr>member_id := 0\<rparr>) new
         = map (\<lambda>(i, m). member_row teamId m fs (member_field i) 0)
             (filter (\<lambda>(i, m). \<not> (i = 2 \<and> (case in_full_name m of None \<Rightarrow> True | Some n \<Rightarrow> trim n = [])))
                (enumerate k ms))
     \<and> teams (snd (map_store (cic_member teamId fs) (enumerate k ms) s)) = teams s
     \<and> events (snd (map_store (cic_member teamId fs) (enumerate k ms) s)) = events s
     \<and> disk (snd (map_store (cic_member teamId fs) (enumerate k ms) s)) = disk s"
proof (induction ms arbitrary: k s)
  case Nil
  then show ?case by simp
next
  case (Cons m ms)
  obtain r s1 where step: "cic_member teamId fs (k, m) s = (r, s1)"
    by (cases "cic_member teamId fs (k, m) s")
  from Cons.IH [of "Suc k" s1] obtain new where
    new: "members (snd (map_store (cic_member teamId fs) (enumerate (Suc k) ms) s1)) = members s1 @ new"
      "map (\<lambda>r. r\<lparr>member_id := 0\<rparr>) new
         = map (\<lambda>(i, m). member_row teamId m fs (member_field i) 0)
             (filter (\<lambda>(i, m). \<not> (i = 2 \<and> (case in_full_name m of None \<Rightarrow> True | Some n \<Rightarrow> trim n = [])))
                (enumerate (Suc k) ms))"
      "teams (snd (map_store (cic_member teamId fs) (enumerate (Suc k) ms) s1)) = teams s1"
      "events (snd (map_store (cic_member teamId fs) (enumerate (Suc k) ms) s1)) = events s1"
      "disk (snd (map_store (cic_member teamId fs) (enumerate (Suc k) ms) s1)) = disk s1"
    by blast
  have snd_eq: "snd (map_store (cic_member teamId fs) (enumerate k (m # ms)) s)
                  = snd (map_store (cic_member teamId fs) (enumerate (Suc k) ms) s1)"
    using step by (simp split: prod.splits)
  show ?case
  proof (cases "k = 2 \<and> (case in_full_name m of None \<Rightarrow> True | Some n \<Rightarrow> trim n = [])")
    case True
    then have "s1 = s"
      using step by (auto simp: cic_member_def split: option.splits if_splits)
    then show ?thesis
      using new True unfolding snd_eq by (intro exI [of _ new]) simp
  next
    case False
    then have "s1 = snd (insert_member (member_row teamId m fs (member_field k) 0) s)"
      using step by (auto simp: cic_member_def split: option.splits if_splits)
    then have s1: "members s1 = members s
                     @ [(member_row teamId m fs (member_field k) 0)\<lparr>member_id := auto_increment_members s\<rparr>]"
      "teams s1 = teams s" "events s1 = events s" "disk s1 = disk s"
      by (simp_all add: insert_member_snd)
    show ?thesis
      using new False s1 unfolding snd_eq
      by (intro exI [of _ "(member_row teamId m fs (member_field k) 0)\<lparr>member_id := auto_increment_members s\<rparr> # new"])
         (simp add: member_row_def)
  qed
qed

lemma item_nth: "item xs i = (if i < length xs then Some (xs ! i) else None)"
  by (induction xs i rule: item.induct) auto

lemma cic_members_fulfilled:
  assumes "\<forall>m. (2, m) \<in> set (enumerate k ms) \<longrightarrow> in_full_name m \<noteq> None"
  shows "\<exists>vs. promise_all (fst (map_store (cic_member teamId fs) (enumerate k ms) s)) = Inr vs"
  using assms
proof (induction ms arbitrary: k s)
  case Nil
  then show ?case by simp
next
  case (Cons m ms)
  obtain r s1 where step: "cic_member teamId fs (k, m) s = (r, s1)"
    by (cases "cic_member teamId fs (k, m) s")
  have "\<forall>m'. (2, m') \<in> set (enumerate (Suc k) ms) \<longrightarrow> in_full_name m' \<noteq> None"
    using Cons.prems by simp
  from Cons.IH [OF this, of s1] obtain vs where
    vs: "promise_all (fst (map_store (cic_member teamId fs) (enumerate (Suc k) ms) s1)) = Inr vs"
    by blast
  have "r = Inr ()"
    using step Cons.prems by (auto simp: cic_member_def split: if_splits)
  then show ?case
    using step vs by (simp add: case_prod_beta)
qed

text \<open>
  C8, amended. The CIC create route leaves out the member at index 2, the third of
  \<^verbatim>\<open>members\<close>, when its name trims to the empty string, and no other member. For a
  request with a team, a leader and a list of members, from a token with a \<^verbatim>\<open>user_id\<close>,
  whose team name is new among the teams of event 4 and whose third member, if there is
  one, has a name that is not \<^verbatim>\<open>null\<close>: the answer is 201, and the member rows added
  are the leader's row with \<^verbatim>\<open>is_leader = 1\<close> followed by one row with
  \<^verbatim>\<open>is_leader = 0\<close> for every member but a blank third one, each as \<open>member_row\<close>
  builds it from the object, the files and the new team's id.
\<close>

theorem cic_skips_blank_third_member:
  assumes parsed: "data req = Parsed p"
    and team: "p_team p = Some teamData"
    and leader: "p_leader p = Some leaderData"
    and members: "p_members p = Some ms"
    and user: "c_user_id user = Some userId"
    and unique: "\<forall>t \<in> set (teams s). \<not> (team_name t = in_team_name teamData \<and> event_id t = 4)"
    and named: "\<forall>m. item ms 2 = Some m \<longrightarrow> in_full_name m \<noteq> None"
  shows
  "fst (cic_new user req s) = Response 201 (Message ''Team and members created successfully'')
   \<and> (\<exists>new. members (snd (cic_new user req s)) = members s @ new
        \<and> map (\<lambda>r. r\<lparr>member_id := 0\<rparr>) new
            = member_row (auto_increment_teams s) leaderData (req_files req) leader_field 1
              # map (\<lambda>(i, m). member_row (auto_increment_teams s) m (req_files req) (member_field i) 0)
                  (filter (\<lambda>(i, m). \<not> (i = 2 \<and> (case in_full_name m of None \<Rightarrow> True
                                                    | Some n \<Rightarrow> trim n = [])))
                     (enumerate 0 ms))
        \<and> map is_leader new
            = 1 # map (\<lambda>im. 0)
                  (filter (\<lambda>(i, m). \<not> (i = 2 \<and> (case in_full_name m of None \<Rightarrow> True
                                                    | Some n \<Rightarrow> trim n = [])))
                     (enumerate 0 ms)))"
proof -
  let ?tid = "auto_increment_teams s"
  let ?fs = "req_files req"
  let ?keep = "\<lambda>(i, m). \<not> (i = 2 \<and> (case in_full_name m of None \<Rightarrow> True | Some n \<Rightarrow> trim n = []))"
  let ?s2 = "snd (insert_team
                            \<lparr>team_id = 0, team_name = in_team_name teamData,
                             institution_name = in_institution_name teamData,
                             payment_proof = file_path ?fs ''payment_proof'',
                             event_id = 4, user_id = Some userId,
                             email = in_team_email teamData,
                             voucher = file_path ?fs ''voucher'',
                             isVerified = False, isRejected = False, rejectMessage = None\<rparr>
                            (query (SELECT Teams) s))"
  let ?s4 = "snd (insert_member (member_row ?tid leaderData ?fs leader_field 1)
                               (query SELECT_LAST_INSERT_ID ?s2))"
  have s2: "last_insert_id ?s2 = ?tid" "members ?s2 = members s"
           "auto_increment_members ?s2 = auto_increment_members s"
    by (simp_all add: insert_team_def query_def Let_def)
  have s4: "members ?s4 = members s
              @ [(member_row ?tid leaderData ?fs leader_field 1)\<lparr>member_id := auto_increment_members s\<rparr>]"
    using s2 by (simp add: insert_member_def query_def Let_def)
  have nodup: "filter (\<lambda>t. team_name t = in_team_name teamData \<and> event_id t = 4) (teams s) = []"
    using unique by (auto simp: filter_empty_conv)
  have named': "\<forall>m. (2, m) \<in> set (enumerate 0 ms) \<longrightarrow> in_full_name m \<noteq> None"
    using named by (auto simp: item_nth in_set_enumerate_eq)
  obtain vs where vs: "promise_all (fst (map_store (cic_member ?tid ?fs) (enumerate 0 ms) ?s4)) = Inr vs"
    using cic_members_fulfilled [OF named'] by blast
  obtain new where new:
    "members (snd (map_store (cic_member ?tid ?fs) (enumerate 0 ms) ?s4)) = members ?s4 @ new"
    "map (\<lambda>r. r\<lparr>member_id := 0\<rparr>) new
       = map (\<lambda>(i, m). member_row ?tid m ?fs (member_field i) 0) (filter ?keep (enumerate 0 ms))"
    using cic_members_loop [of ?tid ?fs 0 ms ?s4] by blast
  have result: "cic_new user req s
          = (Response 201 (Message ''Team and members created successfully''),
             snd (map_store (cic_member ?tid ?fs) (enumerate 0 ms) ?s4))"
    using parsed team leader members user nodup vs s2(1)
    by (simp add: cic_new_def cic_create_def select_team_by_name_def Let_def case_prod_beta
        del: One_nat_def)
  have flags: "map is_leader new = map (\<lambda>im. 0) (filter ?keep (enumerate 0 ms))"
  proof -
    have "map is_leader new = map is_leader (map (\<lambda>r. r\<lparr>member_id := 0\<rparr>) new)"
      by simp
    also have "\<dots> = map (\<lambda>im. 0) (filter ?keep (enumerate 0 ms))"
      unfolding new(2) by (simp add: member_row_def split_def)
    finally show ?thesis .
  qed
  show ?thesis
    unfolding result
    using new s4 flags
    by (intro conjI exI [of _ "(member_row ?tid leaderData ?fs leader_field 1)\<lparr>member_id := auto_increment_members s\<rparr> # new"])
       (simp_all add: member_row_def)
qed

text \<open>
  C8, as stated, fails: a CIC team registered with one leader and two members, the
  second of them blank, gets three member rows, and the third row is the blank member:
  it is not skipped.
\<close>

theorem cic_inserts_blank_second_member:
  "fst (cic_new (example_claims 5000) (example_request ''Beta'' [''Made'', ''  '']) example_store_uploaded)
     = Response 201 (Message ''Team and members created successfully'')
   \<and> map (\<lambda>r. (m_team_id r, full_name r, is_leader r))
         (members (snd (cic_new (example_claims 5000) (example_request ''Beta'' [''Made'', ''  ''])
                          example_store_uploaded)))
     = [(1, Some ''Ani'', 1), (1, Some ''Budi'', 0), (2, Some ''Citra'', 1), (3, Some ''Dewi'', 1),
        (4, Some ''Lina'', 1), (4, Some ''Made'', 0), (4, Some ''  '', 0)]
   \<and> trim ''  '' = []"
  by (simp add: cic_new_def cic_create_def select_team_by_name_def insert_team_def
      insert_member_def cic_member_def member_row_def query_def Let_def case_prod_beta
      example_claims_def example_request_def example_input_def example_store_uploaded_def
      example_store_def example_team_def example_member_def trim_def is_white_space_def)

theorem cic_skips_blank_third_member_witness:
  "fst (cic_new (example_claims 5000) (example_request ''Beta'' [''Made'', ''Nyoman'', ''  ''])
          example_store_uploaded)
     = Response 201 (Message ''Team and members created successfully'')
   \<and> map (\<lambda>r. (m_team_id r, full_name r, is_leader r))
         (members (snd (cic_new (example_claims 5000)
                          (example_request ''Beta'' [''Made'', ''Nyoman'', ''  ''])
                          example_store_uploaded)))
     = [(1, Some ''Ani'', 1), (1, Some ''Budi'', 0), (2, Some ''Citra'', 1), (3, Some ''Dewi'', 1),
        (4, Some ''Lina'', 1), (4, Some ''Made'', 0), (4, Some ''Nyoman'', 0)]"
proof -
  let ?req = "example_request ''Beta'' [''Made'', ''Nyoman'', ''  '']"
  let ?ms = "map example_input [''Made'', ''Nyoman'', ''  '']"
  let ?team = "\<lparr>in_team_name = ''Beta'', in_institution_name = Some ''X University'',
                in_payment_proof = None, in_user_id = Some 7, in_team_email = None\<rparr>"
  let ?p = "\<lparr>p_team = Some ?team,
         p_leader = Some (example_input ''Lina''),
         p_members = Some ?ms,
         p_dosbim = Some [\<lparr>in_d_full_name = Some ''Pak Eko'', in_nip = None, in_d_email = None,
                          in_d_phone_number = None\<rparr>],
         p_sbc = Some [\<lparr>in_bridge_name = Some ''Ampera''\<rparr>],
         p_fcec = Some \<lparr>in_abstract_title = Some ''Beton'', in_abstract_video_link = None\<rparr>\<rparr>"
  let ?s' = "snd (cic_new (example_claims 5000) ?req example_store_uploaded)"
  let ?proj = "\<lambda>r. (m_team_id r, full_name r, is_leader r)"
  have parsed: "data ?req = Parsed ?p"
    by (simp add: example_request_def)
  have team: "p_team ?p = Some ?team" and leader: "p_leader ?p = Some (example_input ''Lina'')"
    and members: "p_members ?p = Some ?ms"
    by simp_all
  have user: "c_user_id (example_claims 5000) = Some 7"
    by (simp add: example_claims_def)
  have unique: "\<forall>t \<in> set (teams example_store_uploaded).
                  \<not> (team_name t = in_team_name ?team \<and> event_id t = 4)"
    by (simp add: example_store_uploaded_def example_store_def example_team_def)
  have named: "\<forall>m. item ?ms 2 = Some m \<longrightarrow> in_full_name m \<noteq> None"
    by (simp add: example_input_def numeral_2_eq_2)
  have kept: "filter (\<lambda>(i, m). \<not> (i = 2 \<and> (case in_full_name m of None \<Rightarrow> True | Some n \<Rightarrow> trim n = [])))
                (enumerate 0 ?ms)
              = [(0, example_input ''Made''), (1, example_input ''Nyoman'')]"
    by (simp add: example_input_def trim_def is_white_space_def)
  note created = cic_skips_blank_third_member [OF parsed team leader members user unique named]
  have ok: "fst (cic_new (example_claims 5000) ?req example_store_uploaded)
              = Response 201 (Message ''Team and members created successfully'')"
    using created by (rule conjunct1)
  from created [THEN conjunct2] obtain new where
    new1: "members ?s' = members example_store_uploaded @ new"
    and new2: "map (\<lambda>r. r\<lparr>member_id := 0\<rparr>) new
         = member_row (auto_increment_teams example_store_uploaded) (example_input ''Lina'')
             (req_files ?req) leader_field 1
           # map (\<lambda>(i, m). member_row (auto_increment_teams example_store_uploaded) m
                               (req_files ?req) (member_field i) 0)
               (filter (\<lambda>(i, m). \<not> (i = 2 \<and> (case in_full_name m of None \<Rightarrow> True
                                                    | Some n \<Rightarrow> trim n = [])))
                     (enumerate 0 ?ms))"
    by (elim exE conjE)
  note new = new1 new2 [unfolded kept]
  have "map ?proj new = map ?proj (map (\<lambda>r. r\<lparr>member_id := 0\<rparr>) new)"
    by simp
  also have "\<dots> = [(4, Some ''Lina'', 1), (4, Some ''Made'', 0), (4, Some ''Nyoman'', 0)]"
    unfolding new(2)
    by (simp add: member_row_def example_input_def example_store_uploaded_def example_store_def)
  finally have rows: "map ?proj new = [(4, Some ''Lina'', 1), (4, Some ''Made'', 0), (4, Some ''Nyoman'', 0)]" .
  have old: "map ?proj (members example_store_uploaded)
               = [(1, Some ''Ani'', 1), (1, Some ''Budi'', 0), (2, Some ''Citra'', 1), (3, Some ''Dewi'', 1)]"
    by (simp add: example_store_uploaded_def example_store_def example_member_def)
  show ?thesis
    unfolding new(1) map_append rows old using ok by simp
qed

section \<open>The leader of a created team\<close>

lemma find_filter: "find P xs = (case filter P xs of [] \<Rightarrow> None | x # _ \<Rightarrow> Some x)"
  by (induction xs) auto

lemma filter_order_by_is_leader_desc:
  "filter (\<lambda>m. is_leader m = c) (order_by_is_leader_desc ms) = filter (\<lambda>m. is_leader m = c) ms"
  by (simp add: order_by_is_leader_desc_def rev_filter [symmetric] sort_key_stable)

lemma map_store_appends:
  assumes "\<And>x s. x \<in> set xs \<Longrightarrow>
             \<exists>new. members (snd (f x s)) = members s @ new
                     \<and> (\<forall>r \<in> set new. Q r)
                     \<and> teams (snd (f x s)) = teams s \<and> events (snd (f x s)) = events s"
  shows "\<exists>new. members (snd (map_store f xs s)) = members s @ new
           \<and> (\<forall>r \<in> set new. Q r)
           \<and> teams (snd (map_store f xs s)) = teams s \<and> events (snd (map_store f xs s)) = events s"
  using assms
proof (induction xs arbitrary: s)
  case Nil
  then show ?case by simp
next
  case (Cons x xs)
  have "x \<in> set (x # xs)"
    by simp
  from Cons.prems [OF this, of s] obtain new1 where
    1: "members (snd (f x s)) = members s @ new1" "\<forall>r \<in> set new1. Q r"
       "teams (snd (f x s)) = teams s" "events (snd (f x s)) = events s"
    by blast
  have "\<exists>new. members (snd (f y s0)) = members s0 @ new
               \<and> (\<forall>r \<in> set new. Q r)
               \<and> teams (snd (f y s0)) = teams s0 \<and> events (snd (f y s0)) = events s0"
    if "y \<in> set xs" for y s0
    using that by (intro Cons.prems) simp
  from Cons.IH [OF this, of "snd (f x s)"] obtain new2 where
    2: "members (snd (map_store f xs (snd (f x s)))) = members (snd (f x s)) @ new2"
       "\<forall>r \<in> set new2. Q r"
       "teams (snd (map_store f xs (snd (f x s)))) = teams (snd (f x s))"
       "events (snd (map_store f xs (snd (f x s)))) = events (snd (f x s))"
    by blast
  show ?case
    using 1 2 by (intro exI [of _ "new1 @ new2"]) (auto simp: case_prod_beta)
qed

lemma insert_member_appends:
  "\<exists>new. members (snd (insert_member row s)) = members s @ new
     \<and> (\<forall>r \<in> set new. m_team_id r = m_team_id row \<and> is_leader r = is_leader row)
     \<and> teams (snd (insert_member row s)) = teams s
     \<and> events (snd (insert_member row s)) = events s"
  by (simp add: insert_member_def query_def Let_def)

text \<open>
  A member object without the key \<^verbatim>\<open>teamId\<close> gets the id of the new team in the CIC
  route; in the SBC and FCEC routes every member object does.
\<close>

lemma cic_member_appends:
  assumes "in_teamId (snd im) = None"
  shows "\<exists>new. members (snd (cic_member teamId fs im s)) = members s @ new
     \<and> (\<forall>r \<in> set new. m_team_id r = teamId \<and> is_leader r = 0)
     \<and> teams (snd (cic_member teamId fs im s)) = teams s
     \<and> events (snd (cic_member teamId fs im s)) = events s"
  using assms
  by (cases im) (simp add: cic_member_def insert_member_def query_def Let_def member_row_def)

lemma sbc_member_appends:
  "\<exists>new. members (snd (sbc_member teamId fs im s)) = members s @ new
     \<and> (\<forall>r \<in> set new. m_team_id r = teamId \<and> is_leader r = 0)
     \<and> teams (snd (sbc_member teamId fs im s)) = teams s
     \<and> events (snd (sbc_member teamId fs im s)) = events s"
  by (cases im)
     (simp add: sbc_member_def insert_member_def query_def Let_def sbc_member_row_def member_row_def)

lemma fcec_member_appends:
  "\<exists>new. members (snd (fcec_member teamId fs im s)) = members s @ new
     \<and> (\<forall>r \<in> set new. m_team_id r = teamId \<and> is_leader r = 0)
     \<and> teams (snd (fcec_member teamId fs im s)) = teams s
     \<and> events (snd (fcec_member teamId fs im s)) = events s"
  by (cases im)
     (simp add: fcec_member_def insert_member_def query_def Let_def fcec_member_row_def member_row_def)

lemma team_createdI:
  assumes "members s2 = members s1 @ new"
    and "\<forall>r \<in> set new. m_team_id r = auto_increment_teams s \<and> is_leader r = 0"
    and "teams s2 = teams s1" and "events s2 = events s1"
    and "members s1 = members s @ [l]" and "m_team_id l = auto_increment_teams s" and "is_leader l = 1"
    and "teams s1 = teams s @ [t]" and "team_id t = auto_increment_teams s" and "event_id t = ev"
    and "events s1 = events s"
  shows "team_created ev s s2"
  unfolding team_created_def using assms by (intro exI [of _ t] exI [of _ l] exI [of _ new]) simp

lemma cic_new_created:
  assumes "cic_new user req s = (Response 201 b, s')"
    and keyless: "no_teamId_key req"
  shows "team_created 4 s s'"
proof -
  let ?tid = "auto_increment_teams s"
  let ?fs = "req_files req"
  from assms obtain p where p: "data req = Parsed p"
    by (cases "data req") (auto simp: cic_new_def)
  from assms p obtain teamData where team: "p_team p = Some teamData"
    by (cases "p_team p") (auto simp: cic_new_def)
  from assms p team obtain leaderData where leader: "p_leader p = Some leaderData"
    by (cases "p_leader p") (auto simp: cic_new_def)
  have create: "cic_create user ?fs teamData leaderData (p_members p) s = (Response 201 b, s')"
    using assms p team leader by (simp add: cic_new_def)
  have nodup: "filter (\<lambda>t. team_name t = in_team_name teamData \<and> event_id t = 4) (teams s) = []"
    using create
    by (auto simp: cic_create_def select_team_by_name_def case_prod_beta
        split: if_splits prod.splits option.splits)
  from create nodup obtain userId where user: "c_user_id user = Some userId"
    by (cases "c_user_id user") (auto simp: cic_create_def select_team_by_name_def)
  let ?s2 = "snd (insert_team
                    \<lparr>team_id = 0, team_name = in_team_name teamData,
                     institution_name = in_institution_name teamData,
                     payment_proof = file_path ?fs ''payment_proof'',
                     event_id = 4, user_id = Some userId,
                     email = in_team_email teamData,
                     voucher = file_path ?fs ''voucher'',
                     isVerified = False, isRejected = False, rejectMessage = None\<rparr>
                    (query (SELECT Teams) s))"
  let ?s4 = "snd (insert_member (member_row ?tid leaderData ?fs leader_field 1)
                    (query SELECT_LAST_INSERT_ID ?s2))"
  have tid: "last_insert_id ?s2 = ?tid"
    by (simp add: insert_team_def query_def Let_def)
  from create nodup user obtain ms where ms: "p_members p = Some ms"
    by (cases "p_members p") (auto simp: cic_create_def select_team_by_name_def Let_def)
  have leader_key: "in_teamId leaderData = None"
    and member_keys: "\<forall>m \<in> set ms. in_teamId m = None"
    using keyless p leader ms by (simp_all add: no_teamId_key_def)
  have s': "s' = snd (map_store (cic_member ?tid ?fs) (enumerate 0 ms) ?s4)"
    using create nodup user ms tid
    by (simp add: cic_create_def select_team_by_name_def Let_def case_prod_beta
        split: sum.splits del: One_nat_def)
  have step: "\<exists>new. members (snd (cic_member ?tid ?fs im s0)) = members s0 @ new
                \<and> (\<forall>r \<in> set new. m_team_id r = ?tid \<and> is_leader r = 0)
                \<and> teams (snd (cic_member ?tid ?fs im s0)) = teams s0
                \<and> events (snd (cic_member ?tid ?fs im s0)) = events s0"
    if "im \<in> set (enumerate 0 ms)" for im s0
  proof (rule cic_member_appends)
    have "snd im \<in> set ms"
      using that nth_mem [of "fst im" ms] by (auto simp: in_set_enumerate_eq)
    then show "in_teamId (snd im) = None"
      using member_keys by simp
  qed
  obtain new where new: "members s' = members ?s4 @ new"
      "\<forall>r \<in> set new. m_team_id r = ?tid \<and> is_leader r = 0"
      "teams s' = teams ?s4" "events s' = events ?s4"
    unfolding s'
    using map_store_appends [of "enumerate 0 ms" "cic_member ?tid ?fs"
        "\<lambda>r. m_team_id r = ?tid \<and> is_leader r = 0", OF step]
    by blast
  show ?thesis
    using leader_key
    by (intro team_createdI [OF new])
       ((simp_all add: insert_member_def insert_team_def query_def Let_def member_row_def)[1])+
qed

lemma insert_team_fst: "fst (insert_team row s) = auto_increment_teams s"
  by (simp add: insert_team_def Let_def)

lemma sbc_new_created:
  assumes "sbc_new user req s = (Response 201 b, s')"
  shows "team_created 3 s s'"
proof -
  let ?tid = "auto_increment_teams s"
  let ?fs = "req_files req"
  from assms obtain p where p: "data req = Parsed p"
    by (cases "data req") (auto simp: sbc_new_def sbc_catch_def)
  have create: "sbc_create user ?fs p s = (Response 201 b, s')"
    using assms p by (simp add: sbc_new_def)
  from create obtain team where team: "p_team p = Some team"
    by (cases "p_team p") (auto simp: sbc_create_def sbc_catch_def)
  from create team obtain userId where user: "c_user_id user = Some userId"
    by (cases "c_user_id user") (auto simp: sbc_create_def sbc_catch_def)
  let ?s1 = "snd (insert_team
                    \<lparr>team_id = 0, team_name = in_team_name team,
                     institution_name = in_institution_name team,
                     payment_proof = file_path ?fs ''payment_proof'',
                     event_id = 3, user_id = Some userId, email = None,
                     voucher = file_path ?fs ''voucher'',
                     isVerified = False, isRejected = False, rejectMessage = None\<rparr> s)"
  from create team user obtain leader where leader: "p_leader p = Some leader"
    by (cases "p_leader p") (auto simp: sbc_create_def sbc_catch_def case_prod_beta)
  let ?s2 = "snd (insert_member (sbc_member_row ?tid leader ?fs leader_field 1) ?s1)"
  from create team user leader obtain ms where ms: "p_members p = Some ms"
    by (cases "p_members p") (auto simp: sbc_create_def sbc_catch_def case_prod_beta Let_def)
  let ?s3 = "snd (map_store (sbc_member ?tid ?fs) (enumerate 0 ms) ?s2)"
  have track: "sbc_track_rows ?fs ?tid (p_dosbim p) (p_sbc p) ?s3 = (Response 201 b, s')"
    using create team user leader ms
    by (simp add: sbc_create_def sbc_catch_def case_prod_beta Let_def insert_team_fst
        split: sum.splits del: One_nat_def)
  then have s': "members s' = members ?s3" "teams s' = teams ?s3" "events s' = events ?s3"
    by (auto simp: sbc_track_rows_def sbc_catch_def insert_dosbim_def insert_sbc_def query_def Let_def
        split: option.splits list.splits)
  obtain new where new: "members ?s3 = members ?s2 @ new"
      "\<forall>r \<in> set new. m_team_id r = ?tid \<and> is_leader r = 0"
      "teams ?s3 = teams ?s2" "events ?s3 = events ?s2"
    using map_store_appends [of "enumerate 0 ms" "sbc_member ?tid ?fs"
        "\<lambda>r. m_team_id r = ?tid \<and> is_leader r = 0", OF sbc_member_appends]
    by blast
  show ?thesis
    by (rule team_createdI [OF new [folded s']])
       ((simp_all add: insert_member_def insert_team_def query_def Let_def member_row_def
           sbc_member_row_def)[1])+
qed

lemma fcec_new_created:
  assumes "fcec_new user req s = (Response 201 b, s')"
  shows "team_created 1 s s'"
proof -
  let ?tid = "auto_increment_teams s"
  let ?fs = "req_files req"
  have catch: "\<And>e s0. fst (fcec_catch ?fs e s0) \<noteq> Response 201 b"
    by (simp add: fcec_catch_def split: prod.splits option.splits)
  from assms obtain p where p: "data req = Parsed p"
    using catch by (cases "data req") (auto simp: fcec_new_def dest: arg_cong [where f = fst])
  have create: "fcec_create ?fs p s = (Response 201 b, s')"
    using assms p by (simp add: fcec_new_def)
  from create obtain team where team: "p_team p = Some team"
    using catch by (cases "p_team p") (auto simp: fcec_create_def dest: arg_cong [where f = fst])
  have nodup: "filter (\<lambda>t. team_name t = in_team_name team \<and> event_id t = 1) (teams s) = []"
  proof (rule ccontr)
    assume "filter (\<lambda>t. team_name t = in_team_name team \<and> event_id t = 1) (teams s) \<noteq> []"
    then have "fst (fcec_create ?fs p s) \<noteq> Response 201 b"
      using team catch
      by (simp add: fcec_create_def select_team_by_name_def split: prod.splits option.splits)
    then show False using create by simp
  qed
  let ?s2 = "snd (insert_team
                    \<lparr>team_id = 0, team_name = in_team_name team,
                     institution_name = in_institution_name team,
                     payment_proof = in_payment_proof team,
                     event_id = 1, user_id = in_user_id team,
                     email = in_team_email team, voucher = None,
                     isVerified = False, isRejected = False, rejectMessage = None\<rparr>
                    (query (SELECT Teams) s))"
  from create team nodup obtain leader where leader: "p_leader p = Some leader"
    using catch
    by (cases "p_leader p")
       (auto simp: fcec_create_def select_team_by_name_def case_prod_beta dest: arg_cong [where f = fst])
  let ?s3 = "snd (insert_member (fcec_member_row ?tid leader ?fs leader_field 1) ?s2)"
  from create team nodup leader obtain ms where ms: "p_members p = Some ms"
    using catch
    by (cases "p_members p")
       (auto simp: fcec_create_def select_team_by_name_def case_prod_beta Let_def
          dest: arg_cong [where f = fst])
  let ?s4 = "snd (map_store (fcec_member ?tid ?fs) (enumerate 0 ms) ?s3)"
  have tid: "fst (insert_team row (query (SELECT Teams) s)) = ?tid" for row
    by (simp add: insert_team_def query_def Let_def)
  have promised: "\<exists>vs. promise_all (fst (map_store (fcec_member ?tid ?fs) (enumerate 0 ms) ?s3)) = Inr vs"
  proof (cases "promise_all (fst (map_store (fcec_member ?tid ?fs) (enumerate 0 ms) ?s3))")
    case (Inl e)
    then have "fst (fcec_create ?fs p s) \<noteq> Response 201 b"
      using team nodup leader ms catch
      by (simp add: fcec_create_def select_team_by_name_def case_prod_beta Let_def tid
          del: One_nat_def)
    then show ?thesis using create by simp
  next
    case (Inr vs)
    then show ?thesis by blast
  qed
  from create team nodup leader ms promised obtain f where f: "p_fcec p = Some f"
    using catch
    by (cases "p_fcec p")
       (auto simp: fcec_create_def select_team_by_name_def case_prod_beta Let_def tid
          dest: arg_cong [where f = fst] simp del: One_nat_def)
  have s': "s' = insert_fcec
                \<lparr>f_team_id = ?tid, originality_statement = file_path ?fs ''originality_statement'',
                 abstract_title = in_abstract_title f,
                 abstract_file = file_path ?fs ''abstract_file'',
                 abstract_video_link = in_abstract_video_link f\<rparr> ?s4"
    using create team nodup leader ms promised f
    by (auto simp: fcec_create_def select_team_by_name_def case_prod_beta Let_def tid
        simp del: One_nat_def)
  have s'': "members s' = members ?s4" "teams s' = teams ?s4" "events s' = events ?s4"
    by (simp_all add: s' insert_fcec_def query_def)
  obtain new where new: "members ?s4 = members ?s3 @ new"
      "\<forall>r \<in> set new. m_team_id r = ?tid \<and> is_leader r = 0"
      "teams ?s4 = teams ?s3" "events ?s4 = events ?s3"
    using map_store_appends [of "enumerate 0 ms" "fcec_member ?tid ?fs"
        "\<lambda>r. m_team_id r = ?tid \<and> is_leader r = 0", OF fcec_member_appends]
    by blast
  show ?thesis
    by (rule team_createdI [OF new [folded s'']])
       ((simp_all add: insert_member_def insert_team_def query_def Let_def member_row_def
           fcec_member_row_def)[1])+
qed

lemma map_member: "x \<in> set xs \<Longrightarrow> f x = y \<Longrightarrow> y \<in> set (map f xs)"
  by auto

lemma promise_all_Inr: "promise_all (map Inr xs) = Inr xs"
  by (induction xs) auto

lemma leader_first:
  assumes "filter (\<lambda>m. m_team_id m = teamId) ms = l # rest"
    and "is_leader l = 1" and "\<forall>m \<in> set rest. is_leader m = 0"
  shows "find (\<lambda>m. is_leader m = 1)
           (order_by_is_leader_desc (filter (\<lambda>m. m_team_id m = teamId) ms)) = Some l"
    and "filter (\<lambda>m. is_leader m = 0)
           (order_by_is_leader_desc (filter (\<lambda>m. m_team_id m = teamId) ms)) = rest"
proof -
  have "filter (\<lambda>m. is_leader m = 1) rest = []"
    using assms(3) by (auto simp: filter_empty_conv)
  then show "find (\<lambda>m. is_leader m = 1)
           (order_by_is_leader_desc (filter (\<lambda>m. m_team_id m = teamId) ms)) = Some l"
    using assms(2) by (simp add: find_filter filter_order_by_is_leader_desc assms(1))
  have "filter (\<lambda>m. is_leader m = 0) rest = rest"
    using assms(3) by (simp add: filter_id_conv)
  then show "filter (\<lambda>m. is_leader m = 0)
           (order_by_is_leader_desc (filter (\<lambda>m. m_team_id m = teamId) ms)) = rest"
    using assms(2) by (simp add: filter_order_by_is_leader_desc assms(1))
qed

lemma created_rows:
  assumes "team_created ev s s'"
    and "\<forall>m \<in> set (members s). m_team_id m \<noteq> auto_increment_teams s"
  obtains t l rest where "t \<in> set (teams s')" "team_id t = auto_increment_teams s" "event_id t = ev"
    "filter (\<lambda>m. m_team_id m = auto_increment_teams s) (members s') = l # rest"
    "is_leader l = 1" "\<forall>m \<in> set rest. is_leader m = 0" "events s' = events s"
proof -
  from assms(1) obtain t l new where c:
    "teams s' = teams s @ [t]" "team_id t = auto_increment_teams s" "event_id t = ev"
    "members s' = members s @ l # new" "m_team_id l = auto_increment_teams s" "is_leader l = 1"
    "\<forall>r \<in> set new. m_team_id r = auto_increment_teams s \<and> is_leader r = 0" "events s' = events s"
    unfolding team_created_def by blast
  have old: "filter (\<lambda>m. m_team_id m = auto_increment_teams s) (members s) = []"
    using assms(2) by (auto simp: filter_empty_conv)
  have "filter (\<lambda>m. m_team_id m = auto_increment_teams s) new = new"
    using c(7) by (simp add: filter_id_conv)
  then have "filter (\<lambda>m. m_team_id m = auto_increment_teams s) (members s') = l # new"
    using c(4,5) old by simp
  then show thesis
    using c by (intro that [of t l new]) simp_all
qed

lemma teams_list_created:
  assumes "team_created ev s s'"
    and "\<forall>m \<in> set (members s). m_team_id m \<noteq> auto_increment_teams s"
  shows "leader_listed (auto_increment_teams s) s' (fst (teams_list s'))"
proof -
  let ?tid = "auto_increment_teams s"
  from created_rows [OF assms] obtain t l rest where c:
    "t \<in> set (teams s')" "team_id t = ?tid" "event_id t = ev"
    "filter (\<lambda>m. m_team_id m = ?tid) (members s') = l # rest"
    "is_leader l = 1" "\<forall>m \<in> set rest. is_leader m = 0" "events s' = events s"
    by blast
  let ?view = "\<lambda>team. TeamView team
                 (find (\<lambda>member. is_leader member = 1)
                    (order_by_is_leader_desc (filter (\<lambda>m. m_team_id m = team_id team) (members s'))))
                 (filter (\<lambda>member. is_leader member = 0)
                    (order_by_is_leader_desc (filter (\<lambda>m. m_team_id m = team_id team) (members s'))))
                 NoTrack"
  have view: "team_with_members (query (SELECT Teams) s') = ?view"
    by (rule ext) (simp add: team_with_members_def select_members_def query_def Let_def)
  have "teams s' \<noteq> []"
    using c(1) by auto
  then have "fst (teams_list s') = Response 200 (TeamList (map ?view (teams s')))"
    by (simp add: teams_list_def Let_def view)
  moreover have "?view t = TeamView t (Some l) rest NoTrack"
    using leader_first [OF c(4,5,6)] c(2) by simp
  then have "TeamView t (Some l) rest NoTrack \<in> set (map ?view (teams s'))"
    by (rule map_member [where f = ?view, OF c(1)])
  ultimately show ?thesis
    unfolding leader_listed_def using c by blast
qed

lemma order_by_is_leader_desc_Nil [simp]: "order_by_is_leader_desc ms = [] \<longleftrightarrow> ms = []"
proof -
  have "length (order_by_is_leader_desc ms) = length ms"
    by (simp add: order_by_is_leader_desc_def)
  then show ?thesis
    by (metis length_0_conv)
qed

lemma cic_list_created:
  assumes "team_created 4 s s'"
    and "\<forall>m \<in> set (members s). m_team_id m \<noteq> auto_increment_teams s"
  shows "leader_listed (auto_increment_teams s) s' (fst (cic_list s'))"
proof -
  let ?tid = "auto_increment_teams s"
  from created_rows [OF assms] obtain t l rest where c:
    "t \<in> set (teams s')" "team_id t = ?tid" "event_id t = 4"
    "filter (\<lambda>m. m_team_id m = ?tid) (members s') = l # rest"
    "is_leader l = 1" "\<forall>m \<in> set rest. is_leader m = 0" "events s' = events s"
    by blast
  let ?ms = "\<lambda>team. order_by_is_leader_desc (filter (\<lambda>m. m_team_id m = team_id team) (members s'))"
  let ?view = "\<lambda>team. if ?ms team = []
                 then TeamOnly (team_name team) (institution_name team) (payment_proof team)
                 else TeamView team (find (\<lambda>member. is_leader member = 1) (?ms team))
                        (filter (\<lambda>member. is_leader member = 0) (?ms team)) NoTrack"
  let ?ts = "filter (\<lambda>t. event_id t = 4) (teams s')"
  have view: "cic_team_view (query (SELECT Teams) s') = ?view"
    by (rule ext) (simp add: cic_team_view_def select_members_def query_def Let_def)
  have t: "t \<in> set ?ts"
    using c(1,3) by simp
  then have "?ts \<noteq> []"
    by (auto simp: filter_empty_conv)
  then have "fst (cic_list s') = Response 200 (TeamList (map ?view ?ts))"
    by (simp add: cic_list_def select_teams_by_event_def view)
  moreover have "?view t = TeamView t (Some l) rest NoTrack"
    using leader_first [OF c(4,5,6)] c(2,4) by simp
  then have "TeamView t (Some l) rest NoTrack \<in> set (map ?view ?ts)"
    by (rule map_member [where f = ?view, OF t])
  ultimately show ?thesis
    unfolding leader_listed_def using c by blast
qed

lemma fcec_list_created:
  assumes "team_created 1 s s'"
    and "\<forall>m \<in> set (members s). m_team_id m \<noteq> auto_increment_teams s"
  shows "leader_listed (auto_increment_teams s) s' (fst (fcec_list s'))"
proof -
  let ?tid = "auto_increment_teams s"
  from created_rows [OF assms] obtain t l rest where c:
    "t \<in> set (teams s')" "team_id t = ?tid" "event_id t = 1"
    "filter (\<lambda>m. m_team_id m = ?tid) (members s') = l # rest"
    "is_leader l = 1" "\<forall>m \<in> set rest. is_leader m = 0" "events s' = events s"
    by blast
  let ?ms = "\<lambda>team. order_by_is_leader_desc (filter (\<lambda>m. m_team_id m = team_id team) (members s'))"
  let ?view = "\<lambda>team. TeamView team (find (\<lambda>member. is_leader member = 1) (?ms team))
                        (filter (\<lambda>member. is_leader member = 0) (?ms team))
                        (FcecRows (filter (\<lambda>r. f_team_id r = team_id team) (fcec s')))"
  let ?ts = "filter (\<lambda>t. event_id t = 1) (teams s')"
  have view: "fcec_team_view (query (SELECT Teams) s') = ?view"
    by (rule ext) (simp add: fcec_team_view_def select_members_def query_def Let_def)
  have t: "t \<in> set ?ts"
    using c(1,3) by simp
  then have "?ts \<noteq> []"
    by (auto simp: filter_empty_conv)
  then have "fst (fcec_list s') = Response 200 (TeamList (map ?view ?ts))"
    by (simp add: fcec_list_def select_teams_by_event_def view)
  moreover have "?view t = TeamView t (Some l) rest (FcecRows (filter (\<lambda>r. f_team_id r = team_id t) (fcec s')))"
    using leader_first [OF c(4,5,6)] c(2) by simp
  then have "TeamView t (Some l) rest (FcecRows (filter (\<lambda>r. f_team_id r = team_id t) (fcec s')))
               \<in> set (map ?view ?ts)"
    by (rule map_member [where f = ?view, OF t])
  ultimately show ?thesis
    unfolding leader_listed_def using c by blast
qed

lemma sbc_list_created:
  assumes "team_created 3 s s'"
    and "\<forall>m \<in> set (members s). m_team_id m \<noteq> auto_increment_teams s"
    and "\<exists>e \<in> set (events s). e_event_id e = 3"
  shows "leader_listed (auto_increment_teams s) s' (fst (sbc_list s'))"
proof -
  let ?tid = "auto_increment_teams s"
  from created_rows [OF assms(1,2)] obtain t l rest where c:
    "t \<in> set (teams s')" "team_id t = ?tid" "event_id t = 3"
    "filter (\<lambda>m. m_team_id m = ?tid) (members s') = l # rest"
    "is_leader l = 1" "\<forall>m \<in> set rest. is_leader m = 0" "events s' = events s"
    by blast
  from assms(3) c(7) obtain e es where e: "filter (\<lambda>e. e_event_id e = 3) (events s') = e # es"
    by (cases "filter (\<lambda>e. e_event_id e = 3) (events s')") (auto simp: filter_empty_conv)
  let ?ms = "\<lambda>team. order_by_is_leader_desc (filter (\<lambda>m. m_team_id m = team_id team) (members s'))"
  let ?view = "\<lambda>team. TeamView team (find (\<lambda>member. is_leader member = 1) (?ms team))
                        (filter (\<lambda>member. is_leader member = 0) (?ms team))
                        (SbcRows (filter (\<lambda>r. d_team_id r = team_id team) (dosbim s'))
                           (filter (\<lambda>r. s_team_id r = team_id team) (sbc s')) (event_name e))"
  let ?ts = "filter (\<lambda>t. event_id t = 3) (teams s')"
  let ?s1 = "query (SELECT Teams) (query (SELECT Events) s')"
  have view: "sbc_team_view (e # es) ?s1 = (\<lambda>team. Inr (?view team))"
    by (rule ext) (simp add: sbc_team_view_def select_members_def query_def Let_def)
  have promised: "promise_all (map (sbc_team_view (e # es) ?s1) ?ts) = Inr (map ?view ?ts)"
    unfolding view using promise_all_Inr [of "map ?view ?ts"] by (simp add: o_def)
  have t: "t \<in> set ?ts"
    using c(1,3) by simp
  then have "?ts \<noteq> []"
    by (auto simp: filter_empty_conv)
  moreover have "teams (query (SELECT Events) s') = teams s'"
    by (simp add: query_def)
  ultimately have "fst (sbc_list s') = Response 200 (TeamList (map ?view ?ts))"
    using e promised
    by (simp add: sbc_list_def select_teams_by_event_def Let_def)
  moreover have "?view t = TeamView t (Some l) rest
                    (SbcRows (filter (\<lambda>r. d_team_id r = team_id t) (dosbim s'))
                           (filter (\<lambda>r. s_team_id r = team_id t) (sbc s')) (event_name e))"
    using leader_first [OF c(4,5,6)] c(2) by simp
  then have "TeamView t (Some l) rest
                    (SbcRows (filter (\<lambda>r. d_team_id r = team_id t) (dosbim s'))
                           (filter (\<lambda>r. s_team_id r = team_id t) (sbc s')) (event_name e))
               \<in> set (map ?view ?ts)"
    by (rule map_member [where f = ?view, OF t])
  ultimately show ?thesis
    unfolding leader_listed_def using c by blast
qed

text \<open>
  Let no member row carry the id the next team will get. After a create of SBC or FCEC
  has answered 201, and after a create of CIC has answered 201 to a request whose leader
  and member objects have no key \<^verbatim>\<open>teamId\<close>, the member rows of the new team are one
  row with \<^verbatim>\<open>is_leader = 1\<close> followed by rows with \<^verbatim>\<open>is_leader = 0\<close>; the list of
  the track and the list of all teams answer 200 with an element for the new team whose
  \<^verbatim>\<open>leader\<close> is that one row and whose \<^verbatim>\<open>members\<close> are exactly the other rows. (The
  SBC list reads the name of event 3 from the \<^verbatim>\<open>events\<close> table, which has to hold
  that row.)
\<close>

lemma leader_listed_after_create:
  assumes fresh: "\<forall>m \<in> set (members s). m_team_id m \<noteq> auto_increment_teams s"
  shows
  "(cic_new user req s = (Response 201 b, s') \<and> no_teamId_key req
      \<longrightarrow> leader_listed (auto_increment_teams s) s' (fst (cic_list s'))
        \<and> leader_listed (auto_increment_teams s) s' (fst (teams_list s')))
   \<and> (sbc_new user req s = (Response 201 b, s') \<and> (\<exists>e \<in> set (events s). e_event_id e = 3)
      \<longrightarrow> leader_listed (auto_increment_teams s) s' (fst (sbc_list s'))
        \<and> leader_listed (auto_increment_teams s) s' (fst (teams_list s')))
   \<and> (fcec_new user req s = (Response 201 b, s')
      \<longrightarrow> leader_listed (auto_increment_teams s) s' (fst (fcec_list s'))
        \<and> leader_listed (auto_increment_teams s) s' (fst (teams_list s')))"
proof (intro conjI impI)
  assume c: "cic_new user req s = (Response 201 b, s') \<and> no_teamId_key req"
  note created = cic_new_created [OF conjunct1 [OF c] conjunct2 [OF c]]
  show "leader_listed (auto_increment_teams s) s' (fst (cic_list s'))"
    by (rule cic_list_created [OF created fresh])
  show "leader_listed (auto_increment_teams s) s' (fst (teams_list s'))"
    by (rule teams_list_created [OF created fresh])
next
  assume c: "sbc_new user req s = (Response 201 b, s') \<and> (\<exists>e \<in> set (events s). e_event_id e = 3)"
  show "leader_listed (auto_increment_teams s) s' (fst (sbc_list s'))"
    by (rule sbc_list_created [OF sbc_new_created [OF conjunct1 [OF c]] fresh conjunct2 [OF c]])
  show "leader_listed (auto_increment_teams s) s' (fst (teams_list s'))"
    by (rule teams_list_created [OF sbc_new_created [OF conjunct1 [OF c]] fresh])
next
  assume c: "fcec_new user req s = (Response 201 b, s')"
  show "leader_listed (auto_increment_teams s) s' (fst (fcec_list s'))"
    by (rule fcec_list_created [OF fcec_new_created [OF c] fresh])
  show "leader_listed (auto_increment_teams s) s' (fst (teams_list s'))"
    by (rule teams_list_created [OF fcec_new_created [OF c] fresh])
qed

lemmas example_create_defs =
  select_team_by_name_def insert_team_def insert_member_def member_row_def query_def Let_def
  case_prod_beta example_claims_def example_request_def example_input_def
  example_store_uploaded_def example_store_def example_team_def example_member_def
  example_files_def file_path_def

lemma leader_listed_after_create_example:
  "(\<exists>l rest views t tr.
     filter (\<lambda>m. m_team_id m = 4)
       (members (snd (cic_new (example_claims 5000) (example_request ''Beta'' [''Made'', ''Nyoman''])
                        example_store_uploaded))) = l # rest
     \<and> is_leader l = 1 \<and> full_name l = Some ''Lina''
     \<and> map full_name rest = [Some ''Made'', Some ''Nyoman'']
     \<and> map is_leader rest = [0, 0]
     \<and> fst (cic_list (snd (cic_new (example_claims 5000)
                               (example_request ''Beta'' [''Made'', ''Nyoman''])
                               example_store_uploaded)))
         = Response 200 (TeamList views)
     \<and> team_id t = 4 \<and> TeamView t (Some l) rest tr \<in> set views)
   \<and> (\<exists>l rest views t tr.
     filter (\<lambda>m. m_team_id m = 4)
       (members (snd (sbc_new (example_claims 5000) (example_request ''Beta'' [''Made'', ''Nyoman''])
                        example_store_uploaded))) = l # rest
     \<and> is_leader l = 1 \<and> full_name l = Some ''Lina''
     \<and> map full_name rest = [Some ''Made'', Some ''Nyoman'']
     \<and> map is_leader rest = [0, 0]
     \<and> fst (sbc_list (snd (sbc_new (example_claims 5000)
                               (example_request ''Beta'' [''Made'', ''Nyoman''])
                               example_store_uploaded)))
         = Response 200 (TeamList views)
     \<and> team_id t = 4 \<and> TeamView t (Some l) rest tr \<in> set views)
   \<and> (\<exists>l rest views t tr.
     filter (\<lambda>m. m_team_id m = 4)
       (members (snd (fcec_new (example_claims 5000) (example_request ''Beta'' [''Made'', ''Nyoman''])
                        example_store_uploaded))) = l # rest
     \<and> is_leader l = 1 \<and> full_name l = Some ''Lina''
     \<and> map full_name rest = [Some ''Made'', Some ''Nyoman'']
     \<and> map is_leader rest = [0, 0]
     \<and> fst (teams_list (snd (fcec_new (example_claims 5000)
                               (example_request ''Beta'' [''Made'', ''Nyoman''])
                               example_store_uploaded)))
         = Response 200 (TeamList views)
     \<and> team_id t = 4 \<and> TeamView t (Some l) rest tr \<in> set views)"
proof -
  let ?req = "example_request ''Beta'' [''Made'', ''Nyoman'']"
  let ?cic = "cic_new (example_claims 5000) ?req example_store_uploaded"
  let ?sbc = "sbc_new (example_claims 5000) ?req example_store_uploaded"
  let ?fcec = "fcec_new (example_claims 5000) ?req example_store_uploaded"
  let ?rows = "\<lambda>s'. map (\<lambda>m. (full_name m, is_leader m)) (filter (\<lambda>m. m_team_id m = 4) (members s'))"
  have fresh: "\<forall>m \<in> set (members example_store_uploaded).
                 m_team_id m \<noteq> auto_increment_teams example_store_uploaded"
    by (simp add: example_store_uploaded_def example_store_def example_member_def)
  have tid: "auto_increment_teams example_store_uploaded = 4"
    by (simp add: example_store_uploaded_def example_store_def)
  have event: "\<exists>e \<in> set (events example_store_uploaded). e_event_id e = 3"
    by (simp add: example_store_uploaded_def example_store_def)
  have keyless: "no_teamId_key ?req"
    by (simp add: no_teamId_key_def example_request_def example_input_def)
  note listed = leader_listed_after_create [OF fresh, unfolded tid leader_listed_def]

  have cic: "\<exists>l rest views t tr.
     filter (\<lambda>m. m_team_id m = 4) (members (snd ?cic)) = l # rest
     \<and> is_leader l = 1 \<and> full_name l = Some ''Lina''
     \<and> map full_name rest = [Some ''Made'', Some ''Nyoman'']
     \<and> map is_leader rest = [0, 0]
     \<and> fst (cic_list (snd ?cic)) = Response 200 (TeamList views)
     \<and> team_id t = 4 \<and> TeamView t (Some l) rest tr \<in> set views"
  proof -
    have "fst ?cic = Response 201 (Message ''Team and members created successfully'')"
      by (simp add: cic_new_def cic_create_def cic_member_def example_create_defs)
    then have created: "?cic = (Response 201 (Message ''Team and members created successfully''), snd ?cic)"
      by (metis prod.collapse)
    have rows: "?rows (snd ?cic) = [(Some ''Lina'', 1), (Some ''Made'', 0), (Some ''Nyoman'', 0)]"
      by (simp add: cic_new_def cic_create_def cic_member_def example_create_defs)
    from listed [THEN conjunct1, rule_format, OF conjI [OF created keyless], THEN conjunct1]
    obtain l rest views t tr where
      l: "filter (\<lambda>m. m_team_id m = 4) (members (snd ?cic)) = l # rest" "is_leader l = 1"
      and v: "fst (cic_list (snd ?cic)) = Response 200 (TeamList views)" "team_id t = 4"
        "TeamView t (Some l) rest tr \<in> set views"
      by (elim exE conjE)
    have "full_name l = Some ''Lina''" "map full_name rest = [Some ''Made'', Some ''Nyoman'']"
      "map is_leader rest = [0, 0]"
      using rows unfolding l(1) by auto
    with l v show ?thesis
      by (intro exI [of _ l] exI [of _ rest] exI [of _ views] exI [of _ t] exI [of _ tr]) simp
  qed

  have sbc: "\<exists>l rest views t tr.
     filter (\<lambda>m. m_team_id m = 4) (members (snd ?sbc)) = l # rest
     \<and> is_leader l = 1 \<and> full_name l = Some ''Lina''
     \<and> map full_name rest = [Some ''Made'', Some ''Nyoman'']
     \<and> map is_leader rest = [0, 0]
     \<and> fst (sbc_list (snd ?sbc)) = Response 200 (TeamList views)
     \<and> team_id t = 4 \<and> TeamView t (Some l) rest tr \<in> set views"
  proof -
    have "fst ?sbc = Response 201 (Message ''Team created successfully'')"
      by (simp add: sbc_new_def sbc_create_def sbc_member_def sbc_track_rows_def sbc_member_row_def
          insert_dosbim_def insert_sbc_def example_create_defs)
    then have created: "?sbc = (Response 201 (Message ''Team created successfully''), snd ?sbc)"
      by (metis prod.collapse)
    have rows: "?rows (snd ?sbc) = [(Some ''Lina'', 1), (Some ''Made'', 0), (Some ''Nyoman'', 0)]"
      by (simp add: sbc_new_def sbc_create_def sbc_member_def sbc_track_rows_def sbc_member_row_def
          insert_dosbim_def insert_sbc_def example_create_defs)
    from listed [THEN conjunct2, THEN conjunct1, rule_format, OF conjI [OF created event],
        THEN conjunct1]
    obtain l rest views t tr where
      l: "filter (\<lambda>m. m_team_id m = 4) (members (snd ?sbc)) = l # rest" "is_leader l = 1"
      and v: "fst (sbc_list (snd ?sbc)) = Response 200 (TeamList views)" "team_id t = 4"
        "TeamView t (Some l) rest tr \<in> set views"
      by (elim exE conjE)
    have "full_name l = Some ''Lina''" "map full_name rest = [Some ''Made'', Some ''Nyoman'']"
      "map is_leader rest = [0, 0]"
      using rows unfolding l(1) by auto
    with l v show ?thesis
      by (intro exI [of _ l] exI [of _ rest] exI [of _ views] exI [of _ t] exI [of _ tr]) simp
  qed

  have fcec: "\<exists>l rest views t tr.
     filter (\<lambda>m. m_team_id m = 4) (members (snd ?fcec)) = l # rest
     \<and> is_leader l = 1 \<and> full_name l = Some ''Lina''
     \<and> map full_name rest = [Some ''Made'', Some ''Nyoman'']
     \<and> map is_leader rest = [0, 0]
     \<and> fst (teams_list (snd ?fcec)) = Response 200 (TeamList views)
     \<and> team_id t = 4 \<and> TeamView t (Some l) rest tr \<in> set views"
  proof -
    have "fst ?fcec = Response 201 (Message ''Team created successfully'')"
      by (simp add: fcec_new_def fcec_create_def fcec_member_def fcec_member_row_def insert_fcec_def
          example_create_defs)
    then have created: "?fcec = (Response 201 (Message ''Team created successfully''), snd ?fcec)"
      by (metis prod.collapse)
    have rows: "?rows (snd ?fcec) = [(Some ''Lina'', 1), (Some ''Made'', 0), (Some ''Nyoman'', 0)]"
      by (simp add: fcec_new_def fcec_create_def fcec_member_def fcec_member_row_def insert_fcec_def
          example_create_defs)
    from listed [THEN conjunct2, THEN conjunct2, rule_format, OF created, THEN conjunct2]
    obtain l rest views t tr where
      l: "filter (\<lambda>m. m_team_id m = 4) (members (snd ?fcec)) = l # rest" "is_leader l = 1"
      and v: "fst (teams_list (snd ?fcec)) = Response 200 (TeamList views)" "team_id t = 4"
        "TeamView t (Some l) rest tr \<in> set views"
      by (elim exE conjE)
    have "full_name l = Some ''Lina''" "map full_name rest = [Some ''Made'', Some ''Nyoman'']"
      "map is_leader rest = [0, 0]"
      using rows unfolding l(1) by auto
    with l v show ?thesis
      by (intro exI [of _ l] exI [of _ rest] exI [of _ views] exI [of _ t] exI [of _ tr]) simp
  qed
  show ?thesis
    using cic sbc fcec by (intro conjI)
qed

text \<open>
  C5. For the create route of CIC the claim fails. The replacements of its \<^verbatim>\<open>INSERT\<close>
  name the new team's id before the spread of the leader object, so a key \<^verbatim>\<open>teamId\<close>
  of that object takes its place. A request for a new team Beta with a leader and two
  members, whose leader object has \<^verbatim>\<open>teamId: 1\<close>, is answered 201; the new team gets
  the id 4; the leader's row is inserted under team 1, which then has two rows with
  \<^verbatim>\<open>is_leader = 1\<close>, and no row of team 4 has leader status. The list of CIC then
  shows team 4 without a leader, and team 1 with the leader it had and the member it had:
  the row of the new leader is in neither. The create routes of SBC and FCEC name the
  id after the spread: they insert the leader of the same request under the new team.
\<close>

theorem cic_leader_under_payload_teamId:
  "fst (cic_new (example_claims 5000) example_request_teamId example_store_uploaded)
     = Response 201 (Message ''Team and members created successfully'')
   \<and> map (\<lambda>t. (team_id t, team_name t, event_id t))
         (teams (snd (cic_new (example_claims 5000) example_request_teamId example_store_uploaded)))
     = [(1, ''Alpha'', 4), (2, ''Garuda'', 3), (3, ''Beton'', 1), (4, ''Beta'', 4)]
   \<and> map (\<lambda>r. (m_team_id r, full_name r, is_leader r))
         (members (snd (cic_new (example_claims 5000) example_request_teamId example_store_uploaded)))
     = [(1, Some ''Ani'', 1), (1, Some ''Budi'', 0), (2, Some ''Citra'', 1), (3, Some ''Dewi'', 1),
        (1, Some ''Lina'', 1), (4, Some ''Made'', 0), (4, Some ''Nyoman'', 0)]
   \<and> (case fst (cic_list (snd (cic_new (example_claims 5000) example_request_teamId
                                  example_store_uploaded))) of
         Response st (TeamList views) \<Rightarrow>
           (st, map (\<lambda>v. (team_id (view_team v), map_option full_name (view_leader v),
                           map full_name (view_members v))) views)
       | _ \<Rightarrow> (0, []))
     = (200, [(1, Some (Some ''Ani''), [Some ''Budi'']),
              (4, None, [Some ''Made'', Some ''Nyoman''])])
   \<and> map (\<lambda>r. (m_team_id r, full_name r, is_leader r))
         (members (snd (sbc_new (example_claims 5000) example_request_teamId example_store_uploaded)))
     = [(1, Some ''Ani'', 1), (1, Some ''Budi'', 0), (2, Some ''Citra'', 1), (3, Some ''Dewi'', 1),
        (4, Some ''Lina'', 1), (4, Some ''Made'', 0), (4, Some ''Nyoman'', 0)]
   \<and> map (\<lambda>r. (m_team_id r, full_name r, is_leader r))
         (members (snd (fcec_new (example_claims 5000) example_request_teamId example_store_uploaded)))
     = [(1, Some ''Ani'', 1), (1, Some ''Budi'', 0), (2, Some ''Citra'', 1), (3, Some ''Dewi'', 1),
        (4, Some ''Lina'', 1), (4, Some ''Made'', 0), (4, Some ''Nyoman'', 0)]"
  by (simp add: cic_new_def cic_create_def cic_member_def cic_list_def cic_team_view_def
      select_members_def select_teams_by_event_def rounds_def order_by_is_leader_desc_def
      sbc_new_def sbc_create_def sbc_member_def sbc_track_rows_def sbc_member_row_def
      insert_dosbim_def insert_sbc_def
      fcec_new_def fcec_create_def fcec_member_def fcec_member_row_def insert_fcec_def
      example_request_teamId_def
      select_team_by_name_def insert_team_def insert_member_def member_row_def query_def Let_def
      case_prod_beta example_claims_def example_input_def
      example_store_uploaded_def example_store_def example_team_def example_member_def
      example_files_def file_path_def)

section \<open>Creation under a team name that is taken\<close>

lemma unlinkSync_each_all:
  "distinct ps \<Longrightarrow> set ps \<subseteq> d \<Longrightarrow> unlinkSync_each ps d = (None, d - set ps)"
proof (induction ps arbitrary: d)
  case Nil
  then show ?case by simp
next
  case (Cons p ps)
  then have step: "unlinkSync_each ps (d - {p}) = (None, d - {p} - set ps)"
    by (intro Cons.IH) auto
  have "p \<in> d"
    using Cons.prems by simp
  moreover have "d - {p} - set ps = d - set (p # ps)"
    by auto
  ultimately show ?case
    using step by (simp del: set_simps)
qed

text \<open>
  The create routes of CIC and FCEC look the team name up among the teams of their event
  first: when it is taken, they remove the files of the request (stored by multer, so
  present on the disk, each under a name of its own), insert nothing and answer 400.
\<close>

lemma cic_new_duplicate_name:
  assumes "data req = Parsed p" and "p_team p = Some teamData" and "p_leader p = Some leaderData"
    and "\<exists>t \<in> set (teams s). team_name t = in_team_name teamData \<and> event_id t = 4"
    and "distinct (file_paths (req_files req))" and "set (file_paths (req_files req)) \<subseteq> disk s"
  shows "cic_new user req s
           = (Response 400 (MessageError ''Team name already exists'' ''TEAM_NAME_EXISTS''),
              s\<lparr>disk := disk s - set (file_paths (req_files req)),
                 journal := journal s @ [SELECT Teams]\<rparr>)"
proof -
  have "filter (\<lambda>t. team_name t = in_team_name teamData \<and> event_id t = 4) (teams s) \<noteq> []"
    using assms(4) by (auto simp: filter_empty_conv)
  then show ?thesis
    using assms(1,2,3) unlinkSync_each_all [OF assms(5,6)]
    by (simp add: cic_new_def cic_create_def select_team_by_name_def query_def)
qed

lemma fcec_new_duplicate_name:
  assumes "data req = Parsed p" and "p_team p = Some team"
    and "\<exists>t \<in> set (teams s). team_name t = in_team_name team \<and> event_id t = 1"
    and "distinct (file_paths (req_files req))" and "set (file_paths (req_files req)) \<subseteq> disk s"
  shows "fcec_new user req s
           = (Response 400 (MessageError ''Team name already exists'' ''TEAM_NAME_EXISTS''),
              s\<lparr>disk := disk s - set (file_paths (req_files req)),
                 journal := journal s @ [SELECT Teams]\<rparr>)"
proof -
  have "filter (\<lambda>t. team_name t = in_team_name team \<and> event_id t = 1) (teams s) \<noteq> []"
    using assms(3) by (auto simp: filter_empty_conv)
  then show ?thesis
    using assms(1,2) unlinkSync_each_all [OF assms(4,5)]
    by (simp add: fcec_new_def fcec_create_def select_team_by_name_def query_def)
qed

text \<open>
  C2. The create route of SBC has no such check. With the name of a team of event 3 in
  the payload it answers 201, a second team row of that name and its member rows are
  inserted, and the two files of the request stay on the disk.
\<close>

theorem sbc_new_inserts_duplicate_name:
  "map team_name (filter (\<lambda>t. event_id t = 3) (teams example_store_uploaded)) = [''Garuda'']
   \<and> fst (sbc_new (example_claims 5000) (example_request ''Garuda'' [''Made'']) example_store_uploaded)
       = Response 201 (Message ''Team created successfully'')
   \<and> map team_name
         (filter (\<lambda>t. event_id t = 3)
            (teams (snd (sbc_new (example_claims 5000) (example_request ''Garuda'' [''Made''])
                           example_store_uploaded))))
       = [''Garuda'', ''Garuda'']
   \<and> map full_name
         (members (snd (sbc_new (example_claims 5000) (example_request ''Garuda'' [''Made''])
                          example_store_uploaded)))
       = map full_name (members example_store_uploaded) @ [Some ''Lina'', Some ''Made'']
   \<and> disk (snd (sbc_new (example_claims 5000) (example_request ''Garuda'' [''Made''])
                   example_store_uploaded))
       = disk example_store_uploaded
   \<and> set (file_paths (req_files (example_request ''Garuda'' [''Made''])))
       = {''uploads/payment_proof-1-2.pdf'', ''uploads/leader_ktm-1-3.png''}
   \<and> ''uploads/payment_proof-1-2.pdf'' \<in> disk example_store_uploaded
   \<and> ''uploads/leader_ktm-1-3.png'' \<in> disk example_store_uploaded"
  by (simp add: sbc_new_def sbc_create_def sbc_member_def sbc_track_rows_def sbc_member_row_def
      insert_dosbim_def insert_sbc_def example_create_defs file_paths_def)

section \<open>The routes without the credential verifier\<close>

text \<open>
  C3. \<^verbatim>\<open>PUT /teams/:team_id/verify\<close> is registered without \<^verbatim>\<open>authenticateToken\<close>. A
  request with no \<^verbatim>\<open>Authorization\<close> header, which the verifier answers 401 and which
  the rejection route of the same team answers 401, runs the verification handler: the
  answer is 200 and the team is verified.
\<close>

theorem verify_runs_without_token:
  "authenticateToken example_ctx None
     = Respond (Response 401 (Message ''Authentication token is required''))
   \<and> fst (PUT_teams_reject example_ctx None 1 (Some (Some ''berkas kurang'')) example_store)
     = Response 401 (Message ''Authentication token is required'')
   \<and> fst (PUT_teams_verify example_ctx None 1 example_store)
     = Response 200 (StatusMessage ''success'' ''Tim Berhasil Diverifikasi'')
   \<and> map isVerified (teams example_store) = [False, False, False]
   \<and> map isVerified (teams (snd (PUT_teams_verify example_ctx None 1 example_store)))
     = [True, False, False]
   \<and> journal (snd (PUT_teams_verify example_ctx None 1 example_store))
     = [SELECT Teams, UPDATE Teams 1]"
  by (simp add: PUT_teams_verify_def PUT_teams_reject_def guarded_def authenticateToken_def
      bearer_token_def teams_verify_def query_def Let_def example_store_def example_team_def)

end
